theory Spec2Isabelle
  imports Main "HOL-Library.Word" "HOL-Library.Code_Target_Nat"
begin

unbundle bit_operations_syntax

section \<open>Go values used by the pod annotation code\<close>

text \<open>
  The file \<^verbatim>\<open>go-controller/pkg/util/pod_annotation.go\<close> works on values of Go's
  \<^verbatim>\<open>net\<close> package. \<^verbatim>\<open>net.IP\<close>, \<^verbatim>\<open>net.IPMask\<close> and \<^verbatim>\<open>net.HardwareAddr\<close> are byte
  slices; a nil slice and an empty slice are both the empty list here (Go's \<^verbatim>\<open>len\<close>
  is 0 for both), except for \<^verbatim>\<open>PodRoute.NextHop\<close>, which the code compares with nil
  and which is therefore an option.
  Pointers (\<^verbatim>\<open>*net.IPNet\<close>, \<^verbatim>\<open>*PodAnnotation\<close>) are taken to be non-nil.
\<close>

type_synonym byte = "8 word"
type_synonym IP = "byte list"
type_synonym IPMask = "byte list"
type_synonym HardwareAddr = "byte list"

record IPNet =
  IP :: IP
  Mask :: IPMask

subsection \<open>Digits and numbers (Go: \<^verbatim>\<open>net/parse.go\<close>, \<^verbatim>\<open>internal/itoa\<close>)\<close>

definition hexDigit :: string where
  "hexDigit = ''0123456789abcdef''"

definition big :: nat where
  "big = 0xFFFFFF"

definition isDigit :: "char \<Rightarrow> bool" where
  "isDigit c = (48 \<le> (of_char c :: nat) \<and> (of_char c :: nat) \<le> 57)"

text \<open>The value of a hexadecimal digit, \<^verbatim>\<open>0-9\<close>, \<^verbatim>\<open>a-f\<close> or \<^verbatim>\<open>A-F\<close>.\<close>

definition hexVal :: "char \<Rightarrow> nat option" where
  "hexVal c =
     (let k = (of_char c :: nat) in
      if 48 \<le> k \<and> k \<le> 57 then Some (k - 48)
      else if 97 \<le> k \<and> k \<le> 102 then Some (k - 97 + 10)
      else if 65 \<le> k \<and> k \<le> 70 then Some (k - 65 + 10)
      else None)"

text \<open>
  \<^verbatim>\<open>dtoi\<close>: decimal to integer. The result is the number and the count of characters
  consumed; \<open>None\<close> is Go's \<^verbatim>\<open>ok == false\<close> (no digit, or a value of \<^verbatim>\<open>big\<close> or more).
\<close>

fun dtoi_loop :: "nat \<Rightarrow> nat \<Rightarrow> string \<Rightarrow> (nat \<times> nat) option" where
  "dtoi_loop n i [] = Some (n, i)"
| "dtoi_loop n i (c # cs) =
     (if isDigit c then
        (let n' = n * 10 + ((of_char c :: nat) - 48) in
         if n' \<ge> big then None else dtoi_loop n' (Suc i) cs)
      else Some (n, i))"

definition dtoi :: "string \<Rightarrow> (nat \<times> nat) option" where
  "dtoi s = (case dtoi_loop 0 0 s of
               None \<Rightarrow> None
             | Some (n, i) \<Rightarrow> if i = 0 then None else Some (n, i))"

text \<open>\<^verbatim>\<open>xtoi\<close>: hexadecimal to integer, with the same conventions.\<close>

fun xtoi_loop :: "nat \<Rightarrow> nat \<Rightarrow> string \<Rightarrow> (nat \<times> nat) option" where
  "xtoi_loop n i [] = Some (n, i)"
| "xtoi_loop n i (c # cs) =
     (case hexVal c of
        None \<Rightarrow> Some (n, i)
      | Some d \<Rightarrow>
          (let n' = n * 16 + d in
           if n' \<ge> big then None else xtoi_loop n' (Suc i) cs))"

definition xtoi :: "string \<Rightarrow> (nat \<times> nat) option" where
  "xtoi s = (case xtoi_loop 0 0 s of
               None \<Rightarrow> None
             | Some (n, i) \<Rightarrow> if i = 0 then None else Some (n, i))"

text \<open>
  \<^verbatim>\<open>xtoi2\<close> converts the next two hex digits of \<open>s\<close> into a byte. If \<open>s\<close> is longer
  than 2 bytes then the third byte must be \<open>e\<close>.
\<close>

definition xtoi2 :: "string \<Rightarrow> char option \<Rightarrow> byte option" where
  "xtoi2 s e =
     (if length s > 2 \<and> Some (s ! 2) \<noteq> e then None
      else case xtoi (take 2 s) of
             None \<Rightarrow> None
           | Some (n, ei) \<Rightarrow> if ei = 2 then Some (of_nat n) else None)"

text \<open>\<^verbatim>\<open>uitoa\<close>: the decimal text of an unsigned number.\<close>

fun uitoa :: "nat \<Rightarrow> string" where
  "uitoa n = (if n < 10 then [hexDigit ! n] else uitoa (n div 10) @ [hexDigit ! (n mod 10)])"

declare uitoa.simps [simp del]

text \<open>\<^verbatim>\<open>appendHex\<close>: the hexadecimal text of a number, without leading zeros.\<close>

fun appendHex :: "nat \<Rightarrow> string" where
  "appendHex n = (if n < 16 then [hexDigit ! n] else appendHex (n div 16) @ [hexDigit ! (n mod 16)])"

declare appendHex.simps [simp del]

text \<open>\<^verbatim>\<open>hexString\<close>: two hex digits for each byte.\<close>

definition hexByte :: "byte \<Rightarrow> string" where
  "hexByte b = [hexDigit ! unat (drop_bit 4 b), hexDigit ! unat (b AND 0xF)]"

definition hexString :: "byte list \<Rightarrow> string" where
  "hexString bs = concat (map hexByte bs)"

subsection \<open>Addresses (Go: \<^verbatim>\<open>net/ip.go\<close>)\<close>

definition IPv4len :: nat where "IPv4len = 4"
definition IPv6len :: nat where "IPv6len = 16"

definition v4InV6Prefix :: "byte list" where
  "v4InV6Prefix = [0, 0, 0, 0, 0, 0, 0, 0, 0, 0, 0xff, 0xff]"

definition IPv4 :: "byte \<Rightarrow> byte \<Rightarrow> byte \<Rightarrow> byte \<Rightarrow> IP" where
  "IPv4 a b c d = v4InV6Prefix @ [a, b, c, d]"

definition IPv4zero :: IP where "IPv4zero = IPv4 0 0 0 0"
definition IPv6unspecified :: IP where "IPv6unspecified = replicate 16 0"

text \<open>\<^verbatim>\<open>To4\<close>: the 4-byte form of an IPv4 address, nil (the empty list) otherwise.\<close>

definition To4 :: "IP \<Rightarrow> IP" where
  "To4 ip =
     (if length ip = IPv4len then ip
      else if length ip = IPv6len \<and> take 10 ip = replicate 10 0 \<and> ip ! 10 = 0xff \<and> ip ! 11 = 0xff
        then drop 12 ip
      else [])"

text \<open>\<^verbatim>\<open>Equal\<close>: an IPv4 address and the same address in IPv6 form are equal.\<close>

definition Equal :: "IP \<Rightarrow> IP \<Rightarrow> bool" where
  "Equal ip x =
     (if length ip = length x then ip = x
      else if length ip = IPv4len \<and> length x = IPv6len
        then take 12 x = v4InV6Prefix \<and> ip = drop 12 x
      else if length ip = IPv6len \<and> length x = IPv4len
        then take 12 ip = v4InV6Prefix \<and> drop 12 ip = x
      else False)"

definition IsUnspecified :: "IP \<Rightarrow> bool" where
  "IsUnspecified ip = (Equal ip IPv4zero \<or> Equal ip IPv6unspecified)"

text \<open>\<^verbatim>\<open>CIDRMask\<close>: a mask of \<open>bits\<close> bits whose first \<open>ones\<close> bits are 1.\<close>

fun CIDRMask_loop :: "nat \<Rightarrow> nat \<Rightarrow> byte list" where
  "CIDRMask_loop 0 n = []"
| "CIDRMask_loop (Suc l) n =
     (if n \<ge> 8 then 0xff # CIDRMask_loop l (n - 8)
      else NOT (drop_bit n (0xff :: byte)) # CIDRMask_loop l 0)"

definition CIDRMask :: "nat \<Rightarrow> nat \<Rightarrow> IPMask" where
  "CIDRMask ones bits =
     (if bits \<noteq> 8 * IPv4len \<and> bits \<noteq> 8 * IPv6len then []
      else if ones > bits then []
      else CIDRMask_loop (bits div 8) ones)"

text \<open>\<^verbatim>\<open>IP.Mask\<close>: the address with the mask applied, nil when the lengths do not fit.\<close>

definition allFF :: "byte list \<Rightarrow> bool" where
  "allFF bs = (\<forall>b \<in> set bs. b = 0xff)"

definition IP_Mask :: "IP \<Rightarrow> IPMask \<Rightarrow> IP" where
  "IP_Mask ip0 mask0 =
     (let mask = (if length mask0 = IPv6len \<and> length ip0 = IPv4len \<and> allFF (take 12 mask0)
                  then drop 12 mask0 else mask0);
          ip = (if length mask = IPv4len \<and> length ip0 = IPv6len \<and> take 12 ip0 = v4InV6Prefix
                then drop 12 ip0 else ip0)
      in if length ip \<noteq> length mask then []
         else map (\<lambda>(a, m). a AND m) (zip ip mask))"

text \<open>
  \<^verbatim>\<open>simpleMaskLength\<close>: the number of leading ones of a mask that consists of ones
  followed by zeros; \<open>None\<close> is Go's \<open>-1\<close>.
\<close>

fun leadingOnes :: "nat \<Rightarrow> byte \<Rightarrow> nat \<times> byte" where
  "leadingOnes 0 v = (0, v)"
| "leadingOnes (Suc k) v =
     (if v AND 0x80 \<noteq> 0
      then (case leadingOnes k (push_bit 1 v) of (n, v') \<Rightarrow> (Suc n, v'))
      else (0, v))"

fun simpleMaskLength :: "IPMask \<Rightarrow> nat option" where
  "simpleMaskLength [] = Some 0"
| "simpleMaskLength (v # rest) =
     (if v = 0xff then map_option (\<lambda>n. n + 8) (simpleMaskLength rest)
      else case leadingOnes 8 v of
             (n, v') \<Rightarrow> if v' \<noteq> 0 then None
                        else if \<exists>b \<in> set rest. b \<noteq> 0 then None
                        else Some n)"

subsection \<open>Text of addresses\<close>

text \<open>The dotted form of four bytes.\<close>

definition string4 :: "byte list \<Rightarrow> string" where
  "string4 p = uitoa (unat (p ! 0)) @ ''.'' @ uitoa (unat (p ! 1)) @ ''.'' @
               uitoa (unat (p ! 2)) @ ''.'' @ uitoa (unat (p ! 3))"

text \<open>The eight 16-bit groups of a 16-byte address.\<close>

fun groups :: "byte list \<Rightarrow> nat list" where
  "groups (hi # lo # rest) = (unat hi * 256 + unat lo) # groups rest"
| "groups _ = []"

text \<open>The length of the run of zero groups at the head of a list.\<close>

definition zeroRun :: "nat list \<Rightarrow> nat" where
  "zeroRun gs = length (takeWhile (\<lambda>g. g = 0) gs)"

text \<open>
  The longest run of zero groups, as (start, end): the first one among the longest, and
  only a run of two groups or more. \<open>i\<close> is the index of the head of \<open>gs\<close>, \<open>best\<close>
  the run found so far.
\<close>

fun longestZeroRun :: "nat \<Rightarrow> nat list \<Rightarrow> (nat \<times> nat) option \<Rightarrow> (nat \<times> nat) option" where
  "longestZeroRun i [] best = best"
| "longestZeroRun i (g # gs) best =
     (let l = zeroRun (g # gs);
          best' = (if l \<ge> 2 \<and> (case best of None \<Rightarrow> True | Some (s, e) \<Rightarrow> l > e - s)
                   then Some (i, i + l) else best)
      in longestZeroRun (Suc i) gs best')"

definition joinColon :: "string list \<Rightarrow> string" where
  "joinColon xs = (case xs of [] \<Rightarrow> [] | x # rest \<Rightarrow> x @ concat (map (\<lambda>y. '':'' @ y) rest))"

definition string6 :: "byte list \<Rightarrow> string" where
  "string6 p =
     (let gs = groups p in
      case longestZeroRun 0 gs None of
        None \<Rightarrow> joinColon (map appendHex gs)
      | Some (s, e) \<Rightarrow>
          joinColon (map appendHex (take s gs)) @ ''::'' @ joinColon (map appendHex (drop e gs)))"

text \<open>\<^verbatim>\<open>IP.String\<close>.\<close>

definition IP_String :: "IP \<Rightarrow> string" where
  "IP_String ip =
     (if length ip = 0 then ''<nil>''
      else if length ip \<noteq> IPv4len \<and> length ip \<noteq> IPv6len then ''?'' @ hexString ip
      else if length (To4 ip) = IPv4len then string4 (To4 ip)
      else string6 ip)"

text \<open>\<^verbatim>\<open>IPMask.String\<close>.\<close>

definition IPMask_String :: "IPMask \<Rightarrow> string" where
  "IPMask_String m = (if length m = 0 then ''<nil>'' else hexString m)"

text \<open>\<^verbatim>\<open>networkNumberAndMask\<close> and \<^verbatim>\<open>IPNet.String\<close>.\<close>

definition networkNumberAndMask :: "IPNet \<Rightarrow> (IP \<times> IPMask) option" where
  "networkNumberAndMask n =
     (let ip = (if To4 (IP n) \<noteq> [] then To4 (IP n) else IP n) in
      if To4 (IP n) = [] \<and> length ip \<noteq> IPv6len then None
      else if length (Mask n) = IPv4len then
        (if length ip \<noteq> IPv4len then None else Some (ip, Mask n))
      else if length (Mask n) = IPv6len then
        (if length ip = IPv4len then Some (ip, drop 12 (Mask n)) else Some (ip, Mask n))
      else None)"

definition IPNet_String :: "IPNet \<Rightarrow> string" where
  "IPNet_String n =
     (case networkNumberAndMask n of
        None \<Rightarrow> ''<nil>''
      | Some (nn, m) \<Rightarrow>
          (case simpleMaskLength m of
             None \<Rightarrow> IP_String nn @ ''/'' @ IPMask_String m
           | Some l \<Rightarrow> IP_String nn @ ''/'' @ uitoa l))"

subsection \<open>Parsing addresses\<close>

text \<open>
  \<^verbatim>\<open>parseIPv4\<close>: four decimal fields separated by dots, each at most 255. Go's
  \<^verbatim>\<open>net.ParseIP\<close> rejects a field with a leading zero; \<^verbatim>\<open>ParseIPSloppy\<close> of
  \<^verbatim>\<open>k8s.io/utils/net\<close> is the same parser without that check (\<open>sloppy\<close>).
  \<open>k\<close> counts the fields still to read, \<open>first\<close> says that no dot is expected.
\<close>

fun parseIPv4_loop :: "bool \<Rightarrow> nat \<Rightarrow> bool \<Rightarrow> string \<Rightarrow> byte list option" where
  "parseIPv4_loop sloppy 0 first s = (if s = [] then Some [] else None)"
| "parseIPv4_loop sloppy (Suc k) first s =
     (if s = [] then None
      else if \<not> first \<and> hd s \<noteq> CHR ''.'' then None
      else
        (let s1 = (if first then s else tl s) in
         case dtoi s1 of
           None \<Rightarrow> None
         | Some (n, c) \<Rightarrow>
             if n > 0xFF then None
             else if \<not> sloppy \<and> c > 1 \<and> hd s1 = CHR ''0'' then None
             else map_option ((#) (of_nat n)) (parseIPv4_loop sloppy k False (drop c s1))))"

definition parseIPv4 :: "bool \<Rightarrow> string \<Rightarrow> IP option" where
  "parseIPv4 sloppy s =
     map_option (\<lambda>p. IPv4 (p ! 0) (p ! 1) (p ! 2) (p ! 3)) (parseIPv4_loop sloppy 4 True s)"

text \<open>
  \<^verbatim>\<open>parseIPv6\<close>: hex groups separated by colons, at most one \<^verbatim>\<open>::\<close>, and possibly a
  dotted IPv4 tail. The loop runs while fewer than 16 bytes are read (\<open>k\<close> counts the
  groups still allowed); it yields the rest of the text, the bytes read and the
  position of the ellipsis.
\<close>

fun parseIPv6_loop ::
  "bool \<Rightarrow> nat \<Rightarrow> string \<Rightarrow> byte list \<Rightarrow> nat option \<Rightarrow> (string \<times> byte list \<times> nat option) option"
where
  "parseIPv6_loop sloppy 0 s ip ellipsis = Some (s, ip, ellipsis)"
| "parseIPv6_loop sloppy (Suc k) s ip ellipsis =
     (case xtoi s of
        None \<Rightarrow> None
      | Some (n, c) \<Rightarrow>
          if n > 0xFFFF then None
          else if c < length s \<and> s ! c = CHR ''.'' then
            (if ellipsis = None \<and> length ip \<noteq> IPv6len - IPv4len then None
             else if length ip + IPv4len > IPv6len then None
             else case parseIPv4 sloppy s of
                    None \<Rightarrow> None
                  | Some ip4 \<Rightarrow> Some ([], ip @ drop 12 ip4, ellipsis))
          else
            (let ip' = ip @ [of_nat (n div 256), of_nat (n mod 256)];
                 s' = drop c s
             in if s' = [] then Some ([], ip', ellipsis)
                else if hd s' \<noteq> CHR '':'' \<or> length s' = 1 then None
                else if hd (tl s') = CHR '':'' then
                  (if ellipsis \<noteq> None then None
                   else if tl (tl s') = [] then Some ([], ip', Some (length ip'))
                   else parseIPv6_loop sloppy k (tl (tl s')) ip' (Some (length ip')))
                else parseIPv6_loop sloppy k (tl s') ip' ellipsis))"

definition parseIPv6 :: "bool \<Rightarrow> string \<Rightarrow> IP option" where
  "parseIPv6 sloppy s0 =
     (let lead = (length s0 \<ge> 2 \<and> s0 ! 0 = CHR '':'' \<and> s0 ! 1 = CHR '':'');
          s = (if lead then drop 2 s0 else s0);
          ellipsis = (if lead then Some 0 else None)
      in if lead \<and> s = [] then Some (replicate 16 0)
         else case parseIPv6_loop sloppy 8 s [] ellipsis of
                None \<Rightarrow> None
              | Some (rest, ip, e) \<Rightarrow>
                  if rest \<noteq> [] then None
                  else if length ip < IPv6len then
                    (case e of
                       None \<Rightarrow> None
                     | Some j \<Rightarrow> Some (take j ip @ replicate (IPv6len - length ip) 0 @ drop j ip))
                  else if e \<noteq> None then None
                  else Some ip)"

text \<open>
  The first dot or colon of the text decides between the two forms. The result is a
  16-byte address; nil (the empty list) when the text is not an address.
\<close>

fun parseIP :: "bool \<Rightarrow> string \<Rightarrow> string \<Rightarrow> IP option" where
  "parseIP sloppy s [] = None"
| "parseIP sloppy s (c # cs) =
     (if c = CHR ''.'' then parseIPv4 sloppy s
      else if c = CHR '':'' then parseIPv6 sloppy s
      else parseIP sloppy s cs)"

definition ParseIP :: "string \<Rightarrow> IP" where
  "ParseIP s = (case parseIP False s s of None \<Rightarrow> [] | Some ip \<Rightarrow> ip)"

definition ParseIPSloppy :: "string \<Rightarrow> IP" where
  "ParseIPSloppy s = (case parseIP True s s of None \<Rightarrow> [] | Some ip \<Rightarrow> ip)"

text \<open>
  \<^verbatim>\<open>ParseCIDR\<close>: an address, a slash and a prefix length. It yields the address and
  the network (the address with the mask applied, and the mask); \<open>None\<close> is the error.
\<close>

definition ParseCIDR :: "string \<Rightarrow> (IP \<times> IPNet) option" where
  "ParseCIDR s =
     (if CHR ''/'' \<notin> set s then None
      else
        (let addr = takeWhile (\<lambda>c. c \<noteq> CHR ''/'') s;
             mask = tl (dropWhile (\<lambda>c. c \<noteq> CHR ''/'') s);
             ip4 = parseIPv4 False addr;
             iplen = (if ip4 = None then IPv6len else IPv4len);
             ip = (if ip4 = None then parseIPv6 False addr else ip4)
         in case (ip, dtoi mask) of
              (Some a, Some (n, i)) \<Rightarrow>
                if i \<noteq> length mask \<or> n > 8 * iplen then None
                else (let m = CIDRMask n (8 * iplen) in Some (a, \<lparr>IP = IP_Mask a m, Mask = m\<rparr>))
            | _ \<Rightarrow> None))"

text \<open>\<^verbatim>\<open>utilnet.IsIPv6\<close> and \<^verbatim>\<open>utilnet.IsIPv6CIDR\<close> of \<^verbatim>\<open>k8s.io/utils/net\<close>.\<close>

definition IsIPv6 :: "IP \<Rightarrow> bool" where
  "IsIPv6 netIP = (netIP \<noteq> [] \<and> To4 netIP = [])"

definition IsIPv6CIDR :: "IPNet \<Rightarrow> bool" where
  "IsIPv6CIDR cidr = IsIPv6 (IP cidr)"

subsection \<open>Hardware addresses (Go: \<^verbatim>\<open>net/mac.go\<close>)\<close>

definition HardwareAddr_String :: "HardwareAddr \<Rightarrow> string" where
  "HardwareAddr_String a =
     (case a of [] \<Rightarrow> [] | b # bs \<Rightarrow> hexByte b @ concat (map (\<lambda>x. '':'' @ hexByte x) bs))"

text \<open>
  \<^verbatim>\<open>ParseMAC\<close> reads 6, 8 or 20 bytes, written as pairs of hex digits separated by
  colons or hyphens, or as groups of four hex digits separated by dots.
\<close>

fun parseMAC_pairs :: "nat \<Rightarrow> char \<Rightarrow> string \<Rightarrow> byte list option" where
  "parseMAC_pairs 0 sep s = Some []"
| "parseMAC_pairs (Suc n) sep s =
     (case xtoi2 s (Some sep) of
        None \<Rightarrow> None
      | Some b \<Rightarrow> map_option ((#) b) (parseMAC_pairs n sep (drop 3 s)))"

fun parseMAC_quads :: "nat \<Rightarrow> char \<Rightarrow> string \<Rightarrow> byte list option" where
  "parseMAC_quads 0 sep s = Some []"
| "parseMAC_quads (Suc n) sep s =
     (case xtoi2 (take 2 s) None of
        None \<Rightarrow> None
      | Some b1 \<Rightarrow>
          (case xtoi2 (drop 2 s) (Some sep) of
             None \<Rightarrow> None
           | Some b2 \<Rightarrow> map_option (\<lambda>r. b1 # b2 # r) (parseMAC_quads n sep (drop 5 s))))"

definition ParseMAC :: "string \<Rightarrow> HardwareAddr option" where
  "ParseMAC s =
     (if length s < 14 then None
      else if s ! 2 = CHR '':'' \<or> s ! 2 = CHR ''-'' then
        (if (length s + 1) mod 3 \<noteq> 0 then None
         else (let n = (length s + 1) div 3 in
               if n \<noteq> 6 \<and> n \<noteq> 8 \<and> n \<noteq> 20 then None
               else parseMAC_pairs n (s ! 2) s))
      else if s ! 4 = CHR ''.'' then
        (if (length s + 1) mod 5 \<noteq> 0 then None
         else (let n = 2 * (length s + 1) div 5 in
               if n \<noteq> 6 \<and> n \<noteq> 8 \<and> n \<noteq> 20 then None
               else parseMAC_quads (n div 2) (s ! 4) s))
      else None)"

section \<open>The pod network annotation (\<^verbatim>\<open>pod_annotation.go\<close>)\<close>

definition OvnPodAnnotationName :: string where
  "OvnPodAnnotationName = ''k8s.ovn.org/pod-networks''"

definition OvnPodDefaultNetwork :: string where
  "OvnPodDefaultNetwork = ''default''"

text \<open>\<^verbatim>\<open>PodRoute\<close> and \<^verbatim>\<open>PodAnnotation\<close>: the assigned network details of one pod network.\<close>

record PodRoute =
  Dest :: IPNet
  NextHop :: "IP option"

record PodAnnotation =
  IPs :: "IPNet list"
  MAC :: HardwareAddr
  Gateways :: "IP list"
  Routes :: "PodRoute list"

text \<open>
  The internal structs \<^verbatim>\<open>podRoute\<close> and \<^verbatim>\<open>podAnnotation\<close> that are marshalled to
  JSON; the fields carry the names of their JSON tags (\<^verbatim>\<open>IPs\<close> is \<open>ip_addresses\<close>,
  \<^verbatim>\<open>MAC\<close> is \<open>mac_address\<close>, \<^verbatim>\<open>Gateways\<close> is \<open>gateway_ips\<close>, \<^verbatim>\<open>Routes\<close> is
  \<open>routes\<close>, \<^verbatim>\<open>IP\<close> is \<open>ip_address\<close>, \<^verbatim>\<open>Gateway\<close> is \<open>gateway_ip\<close>). The empty
  string and the empty list are Go's zero values, which \<^verbatim>\<open>omitempty\<close> leaves out.
\<close>

record podRoute =
  dest :: string
  nextHop :: string

record podAnnotation =
  ip_addresses :: "string list"
  mac_address :: string
  gateway_ips :: "string list"
  routes :: "podRoute list"
  ip_address :: string
  gateway_ip :: string

definition zero_podAnnotation :: podAnnotation where
  "zero_podAnnotation =
     \<lparr>ip_addresses = [], mac_address = [], gateway_ips = [], routes = [],
      ip_address = [], gateway_ip = []\<rparr>"

text \<open>
  The value of an annotation is a string that the code writes with \<^verbatim>\<open>json.Marshal\<close>
  and reads with \<^verbatim>\<open>json.Unmarshal\<close> only. The string is represented by what
  \<^verbatim>\<open>json.Unmarshal\<close> makes of it for the target \<^verbatim>\<open>map[string]podAnnotation\<close>: the
  map of the records it holds (\<open>JSON\<close>), or a text that \<^verbatim>\<open>json.Unmarshal\<close> rejects
  (\<open>NotJSON\<close>). \<^verbatim>\<open>json.Marshal\<close> of a map is the text that reads back as that map.
\<close>

datatype annotation_value =
    JSON "string \<rightharpoonup> podAnnotation"
  | NotJSON string

text \<open>
  The errors, one constructor for each place that returns one, with the values that
  the message is formatted from. \<open>errorFormat\<close> is the format string of the source.
\<close>

datatype error =
    AnnotationNotSet
  | UnmarshalFailed string
  | ParseMACFailed string
  | NoIPAddress
  | IPAddressConflict
  | ParseIPFailed string
  | GatewayConflict
  | ParseGatewayFailed string
  | ParseRouteDestFailed string
  | DefaultRoute PodRoute
  | ParseNextHopFailed string
  | NextHopFamily string string
  | MultipleGateways
  | NoPodIPFound string string

fun errorFormat :: "error \<Rightarrow> string" where
  "errorFormat AnnotationNotSet = ''could not find OVN pod annotation in %v''"
| "errorFormat (UnmarshalFailed _) = ''failed to unmarshal ovn pod annotation %q: %v''"
| "errorFormat (ParseMACFailed _) = ''failed to parse pod MAC %q: %v''"
| "errorFormat NoIPAddress = ''bad annotation data (neither ip_address nor ip_addresses is set)''"
| "errorFormat IPAddressConflict = ''bad annotation data (ip_address and ip_addresses conflict)''"
| "errorFormat (ParseIPFailed _) = ''failed to parse pod IP %q: %v''"
| "errorFormat GatewayConflict = ''bad annotation data (gateway_ip and gateway_ips conflict)''"
| "errorFormat (ParseGatewayFailed _) = ''failed to parse pod gateway %q''"
| "errorFormat (ParseRouteDestFailed _) = ''failed to parse pod route dest %q: %v''"
| "errorFormat (DefaultRoute _) =
     ''bad podNetwork data: default route %v should be specified as gateway''"
| "errorFormat (ParseNextHopFailed _) = ''failed to parse pod route next hop %q''"
| "errorFormat (NextHopFamily _ _) = ''pod route %s has next hop %s of different family''"
| "errorFormat MultipleGateways =
     ''bad podNetwork data: single-stack network can only have a single gateway''"
| "errorFormat (NoPodIPFound _ _) = ''pod %s/%s: no pod IPs found ''"

text \<open>
  The specification sorts the errors of the codec into \<open>NotPresent\<close> (the annotation
  is not set), \<open>MalformedWireFormat\<close> (the value is not JSON) and \<open>InvalidConfig\<close>
  (all the others that the two codec functions return).
\<close>

fun isInvalidConfig :: "error \<Rightarrow> bool" where
  "isInvalidConfig AnnotationNotSet = False"
| "isInvalidConfig (UnmarshalFailed _) = False"
| "isInvalidConfig (NoPodIPFound _ _) = False"
| "isInvalidConfig _ = True"

subsection \<open>\<^verbatim>\<open>MarshalPodAnnotation\<close>\<close>

definition marshalRoute :: "PodRoute \<Rightarrow> podRoute" where
  "marshalRoute r =
     \<lparr>dest = IPNet_String (Dest r),
      nextHop = (case NextHop r of None \<Rightarrow> [] | Some nh \<Rightarrow> IP_String nh)\<rparr>"

text \<open>The loop over \<^verbatim>\<open>podInfo.Routes\<close>, which returns at the first default route.\<close>

fun marshalRoutes :: "PodRoute list \<Rightarrow> error + podRoute list" where
  "marshalRoutes [] = Inr []"
| "marshalRoutes (r # rs) =
     (if IsUnspecified (IP (Dest r)) then Inl (DefaultRoute r)
      else case marshalRoutes rs of
             Inl e \<Rightarrow> Inl e
           | Inr out \<Rightarrow> Inr (marshalRoute r # out))"

text \<open>
  The first block of the function: the deprecated fields \<open>ip_address\<close> and
  \<open>gateway_ip\<close>, and the check of the number of gateways.
\<close>

definition marshalSingular :: "PodAnnotation \<Rightarrow> podAnnotation \<Rightarrow> error + podAnnotation" where
  "marshalSingular podInfo pa =
     (if length (IPs podInfo) = 1 then
        (let pa1 = pa\<lparr>ip_address := IPNet_String (IPs podInfo ! 0)\<rparr> in
         if length (Gateways podInfo) = 1
           then Inr (pa1\<lparr>gateway_ip := IP_String (Gateways podInfo ! 0)\<rparr>)
         else if length (Gateways podInfo) > 1 then Inl MultipleGateways
         else Inr pa1)
      else Inr pa)"

definition marshalRecord :: "PodAnnotation \<Rightarrow> error + podAnnotation" where
  "marshalRecord podInfo =
     (case marshalSingular podInfo (zero_podAnnotation\<lparr>mac_address := HardwareAddr_String (MAC podInfo)\<rparr>) of
        Inl e \<Rightarrow> Inl e
      | Inr pa \<Rightarrow>
          (let pa2 = pa\<lparr>ip_addresses := map IPNet_String (IPs podInfo),
                         gateway_ips := map IP_String (Gateways podInfo)\<rparr>
           in case marshalRoutes (Routes podInfo) of
                Inl e \<Rightarrow> Inl e
              | Inr rs \<Rightarrow> Inr (pa2\<lparr>routes := rs\<rparr>)))"

definition MarshalPodAnnotation :: "PodAnnotation \<Rightarrow> error + (string \<rightharpoonup> annotation_value)" where
  "MarshalPodAnnotation podInfo =
     (case marshalRecord podInfo of
        Inl e \<Rightarrow> Inl e
      | Inr pa \<Rightarrow> Inr [OvnPodAnnotationName \<mapsto> JSON [OvnPodDefaultNetwork \<mapsto> pa]])"

subsection \<open>\<^verbatim>\<open>UnmarshalPodAnnotation\<close>\<close>

text \<open>The loop over \<^verbatim>\<open>a.IPs\<close>: each entry is parsed, and keeps its own address.\<close>

fun unmarshalIPs :: "string list \<Rightarrow> error + IPNet list" where
  "unmarshalIPs [] = Inr []"
| "unmarshalIPs (ipstr # rest) =
     (case ParseCIDR ipstr of
        None \<Rightarrow> Inl (ParseIPFailed ipstr)
      | Some (ip, ipnet) \<Rightarrow>
          (case unmarshalIPs rest of
             Inl e \<Rightarrow> Inl e
           | Inr out \<Rightarrow> Inr (ipnet\<lparr>IP := ip\<rparr> # out)))"

text \<open>The loop over \<^verbatim>\<open>a.Gateways\<close>.\<close>

fun unmarshalGateways :: "string list \<Rightarrow> error + IP list" where
  "unmarshalGateways [] = Inr []"
| "unmarshalGateways (gwstr # rest) =
     (let gw = ParseIP gwstr in
      if gw = [] then Inl (ParseGatewayFailed gwstr)
      else case unmarshalGateways rest of
             Inl e \<Rightarrow> Inl e
           | Inr out \<Rightarrow> Inr (gw # out))"

text \<open>The body of the loop over \<^verbatim>\<open>a.Routes\<close>, and the loop.\<close>

definition unmarshalRoute :: "podRoute \<Rightarrow> error + PodRoute" where
  "unmarshalRoute r =
     (case ParseCIDR (dest r) of
        None \<Rightarrow> Inl (ParseRouteDestFailed (dest r))
      | Some (ip, d) \<Rightarrow>
          (let route = \<lparr>Dest = d, NextHop = None\<rparr> in
           if IsUnspecified (IP d) then Inl (DefaultRoute route)
           else if nextHop r \<noteq> [] then
             (let nh = ParseIP (nextHop r) in
              if nh = [] then Inl (ParseNextHopFailed (nextHop r))
              else if IsIPv6 nh \<noteq> IsIPv6CIDR d then Inl (NextHopFamily (dest r) (nextHop r))
              else Inr (route\<lparr>NextHop := Some nh\<rparr>))
           else Inr route))"

fun unmarshalRoutes :: "podRoute list \<Rightarrow> error + PodRoute list" where
  "unmarshalRoutes [] = Inr []"
| "unmarshalRoutes (r # rest) =
     (case unmarshalRoute r of
        Inl e \<Rightarrow> Inl e
      | Inr route \<Rightarrow>
          (case unmarshalRoutes rest of
             Inl e \<Rightarrow> Inl e
           | Inr out \<Rightarrow> Inr (route # out)))"

text \<open>
  The strings to parse as IPs: \<open>ip_addresses\<close>, or \<open>ip_address\<close> alone when the
  list is empty; the two must agree when both are set.
\<close>

definition resolveIPs :: "podAnnotation \<Rightarrow> error + string list" where
  "resolveIPs a =
     (if length (ip_addresses a) = 0 then
        (if ip_address a = [] then Inl NoIPAddress else Inr (ip_addresses a @ [ip_address a]))
      else if ip_address a \<noteq> [] \<and> ip_address a \<noteq> ip_addresses a ! 0 then Inl IPAddressConflict
      else Inr (ip_addresses a))"

text \<open>The same for the gateways, where none at all is not an error.\<close>

definition resolveGateways :: "podAnnotation \<Rightarrow> error + string list" where
  "resolveGateways a =
     (if length (gateway_ips a) = 0 then
        (if gateway_ip a \<noteq> [] then Inr (gateway_ips a @ [gateway_ip a]) else Inr (gateway_ips a))
      else if gateway_ip a \<noteq> [] \<and> gateway_ip a \<noteq> gateway_ips a ! 0 then Inl GatewayConflict
      else Inr (gateway_ips a))"

text \<open>
  The part of the function that works on the record of the default network: the MAC,
  the IPs, the gateways and the routes, in this order, with a return at the first error.
\<close>

definition unmarshalRecord :: "podAnnotation \<Rightarrow> error + PodAnnotation" where
  "unmarshalRecord a =
     (case ParseMAC (mac_address a) of
        None \<Rightarrow> Inl (ParseMACFailed (mac_address a))
      | Some mac \<Rightarrow>
     (case resolveIPs a of
        Inl e \<Rightarrow> Inl e
      | Inr ipstrs \<Rightarrow>
     (case unmarshalIPs ipstrs of
        Inl e \<Rightarrow> Inl e
      | Inr ips \<Rightarrow>
     (case resolveGateways a of
        Inl e \<Rightarrow> Inl e
      | Inr gwstrs \<Rightarrow>
     (case unmarshalGateways gwstrs of
        Inl e \<Rightarrow> Inl e
      | Inr gws \<Rightarrow>
     (case unmarshalRoutes (routes a) of
        Inl e \<Rightarrow> Inl e
      | Inr rs \<Rightarrow> Inr \<lparr>IPs = ips, MAC = mac, Gateways = gws, Routes = rs\<rparr>))))))"

definition UnmarshalPodAnnotation :: "(string \<rightharpoonup> annotation_value) \<Rightarrow> error + PodAnnotation" where
  "UnmarshalPodAnnotation annotations =
     (case annotations OvnPodAnnotationName of
        None \<Rightarrow> Inl AnnotationNotSet
      | Some (NotJSON s) \<Rightarrow> Inl (UnmarshalFailed s)
      | Some (JSON podNetworks) \<Rightarrow>
          unmarshalRecord (case podNetworks OvnPodDefaultNetwork of
                             None \<Rightarrow> zero_podAnnotation
                           | Some tempA \<Rightarrow> tempA))"

subsection \<open>\<^verbatim>\<open>GetAllPodIPs\<close>\<close>

text \<open>
  The fields of \<^verbatim>\<open>v1.Pod\<close> that the function reads: \<^verbatim>\<open>pod.Status.PodIPs\<close> (the
  \<^verbatim>\<open>IP\<close> string of each entry), \<^verbatim>\<open>pod.Status.PodIP\<close>, \<^verbatim>\<open>pod.Annotations\<close>, and the
  name and namespace of the error message.
\<close>

record Pod =
  Namespace :: string
  Name :: string
  Annotations :: "string \<rightharpoonup> annotation_value"
  Status_PodIPs :: "string list"
  Status_PodIP :: string

text \<open>The first loop: the entries of \<^verbatim>\<open>pod.Status.PodIPs\<close> that parse.\<close>

fun statusPodIPs :: "string list \<Rightarrow> IP list" where
  "statusPodIPs [] = []"
| "statusPodIPs (podIP # rest) =
     (let ip = ParseIPSloppy podIP in
      if ip = [] then statusPodIPs rest else ip # statusPodIPs rest)"

text \<open>The end of the function: \<^verbatim>\<open>pod.Status.PodIP\<close>, set by a kubelet before 1.16.\<close>

definition fallbackPodIP :: "Pod \<Rightarrow> error + IP list" where
  "fallbackPodIP pod =
     (let ip = ParseIPSloppy (Status_PodIP pod) in
      if ip = [] then Inl (NoPodIPFound (Namespace pod) (Name pod)) else Inr [ip])"

definition GetAllPodIPs :: "Pod \<Rightarrow> error + IP list" where
  "GetAllPodIPs pod =
     (let ips = statusPodIPs (Status_PodIPs pod) in
      if length ips > 0 then Inr ips
      else case UnmarshalPodAnnotation (Annotations pod) of
             Inr annotation \<Rightarrow>
               (let ips = map IP (IPs annotation) in
                if length ips > 0 then Inr ips else fallbackPodIP pod)
           | Inl err \<Rightarrow> fallbackPodIP pod)"

section \<open>The node address reconciler\<close>

text \<open>
  The code of the reconciler (the address manager that the test
  \<^verbatim>\<open>Node IP Handler tests\<close> drives through \<^verbatim>\<open>runInternal\<close>) is not among the source
  files; only its test is. The definitions of this section follow sections 4.2, 4.3 and
  5 of the specification. One worker runs the state machine, so it is a function from
  a state and an input of the environment to the next state. The environment decides
  whether a subscription attempt and a write to the cluster API succeed, and which
  addresses the host has when they are enumerated; its answers are part of the input.
\<close>

text \<open>
  Modelled from the spec: \<open>ExcludedAddressSet\<close>, the management-port addresses (v4, v6)
  and the masquerade addresses (v4, v6), fixed when the reconciler is built.
\<close>

record ExcludedAddressSet =
  mgmtPortIPv4 :: IP
  mgmtPortIPv6 :: IP
  masqueradeIPv4 :: IP
  masqueradeIPv6 :: IP

text \<open>
  Modelled from the spec: the predicate \<open>IsPublishable\<close> of the address filter, true unless
  the address equals, ignoring the prefix length, one of the excluded addresses.
\<close>

definition IsPublishable :: "ExcludedAddressSet \<Rightarrow> IPNet \<Rightarrow> bool" where
  "IsPublishable ex a =
     (\<not> (Equal (IP a) (mgmtPortIPv4 ex) \<or> Equal (IP a) (mgmtPortIPv6 ex) \<or>
         Equal (IP a) (masqueradeIPv4 ex) \<or> Equal (IP a) (masqueradeIPv6 ex)))"

text \<open>Modelled from the spec: the states of the reconciler's state machine.\<close>

datatype phase = Unsubscribed | Subscribing | Subscribed | Resubscribing | Stopped

text \<open>
  Modelled from the spec: the reconciler, with its \<open>HostAddressSet\<close> and the address
  annotation of the node object as the cluster API stores it.
\<close>

record Reconciler =
  phase :: phase
  excluded :: ExcludedAddressSet
  hostAddresses :: "IPNet set"
  nodeAnnotation :: "IPNet set"

text \<open>
  Modelled from the spec: what the environment hands to the worker. \<open>Startup\<close> and a
  successful \<open>SubscribeAttempt\<close> carry the addresses that the host has at that moment
  (for the resync); \<open>apiOk\<close> says whether a write to the cluster API, if one is made,
  succeeds.
\<close>

datatype input =
    Startup "IPNet list" bool
  | SubscribeAttempt bool "IPNet list" bool
  | AddressEvent IPNet bool bool
  | ChannelClosed
  | StopSignal

text \<open>
  Modelled from the spec: the write of the node annotation, made only when the address
  set differs from what is stored; a write that fails leaves the annotation as it is.
\<close>

definition writeAnnotation :: "Reconciler \<Rightarrow> bool \<Rightarrow> Reconciler" where
  "writeAnnotation r apiOk =
     (if hostAddresses r \<noteq> nodeAnnotation r \<and> apiOk
      then r\<lparr>nodeAnnotation := hostAddresses r\<rparr> else r)"

text \<open>
  Modelled from the spec: the full resync, which enumerates the host's addresses,
  applies the filter and writes the result.
\<close>

definition resync :: "Reconciler \<Rightarrow> IPNet list \<Rightarrow> bool \<Rightarrow> Reconciler" where
  "resync r current apiOk =
     writeAnnotation (r\<lparr>hostAddresses := set (filter (IsPublishable (excluded r)) current)\<rparr>) apiOk"

text \<open>
  Modelled from the spec: the handling of one add or remove event in the state
  \<open>Subscribed\<close>. An address that fails the filter is ignored.
\<close>

definition handleAddressEvent :: "Reconciler \<Rightarrow> IPNet \<Rightarrow> bool \<Rightarrow> bool \<Rightarrow> Reconciler" where
  "handleAddressEvent r a isAdd apiOk =
     (if \<not> IsPublishable (excluded r) a then r
      else writeAnnotation
             (r\<lparr>hostAddresses := (if isAdd then insert a (hostAddresses r)
                                  else hostAddresses r - {a})\<rparr>) apiOk)"

text \<open>
  Modelled from the spec: one step of the state machine
  \<open>Unsubscribed \<rightarrow> Subscribing \<rightarrow> Subscribed \<rightleftharpoons> Resubscribing \<rightarrow> Stopped\<close>. A stop signal
  ends the loop in every state, and nothing is written after it. A subscription that
  is acquired is followed by a resync before events are processed. A closed event
  channel or a failed attempt leads to \<open>Resubscribing\<close>, where attempts are repeated.
\<close>

fun step :: "Reconciler \<Rightarrow> input \<Rightarrow> Reconciler" where
  "step r StopSignal = r\<lparr>phase := Stopped\<rparr>"
| "step r (Startup current apiOk) =
     (if phase r = Unsubscribed then (resync r current apiOk)\<lparr>phase := Subscribing\<rparr> else r)"
| "step r (SubscribeAttempt ok current apiOk) =
     (if phase r = Subscribing \<or> phase r = Resubscribing then
        (if ok then (resync r current apiOk)\<lparr>phase := Subscribed\<rparr>
         else r\<lparr>phase := Resubscribing\<rparr>)
      else r)"
| "step r (AddressEvent a isAdd apiOk) =
     (if phase r = Subscribed then handleAddressEvent r a isAdd apiOk else r)"
| "step r ChannelClosed =
     (if phase r = Subscribed then r\<lparr>phase := Resubscribing\<rparr> else r)"

text \<open>Modelled from the spec: the worker processes its inputs strictly in arrival order.\<close>

fun run :: "Reconciler \<Rightarrow> input list \<Rightarrow> Reconciler" where
  "run r [] = r"
| "run r (i # rest) = run (step r i) rest"

section \<open>Example values\<close>

text \<open>
  The annotation of the comment at the head of \<^verbatim>\<open>pod_annotation.go\<close> and variations of
  it, and the addresses of the reconciler's test.
\<close>

definition exampleMAC :: HardwareAddr where
  "exampleMAC = [0x0a, 0x58, 0xfd, 0x98, 0x00, 0x01]"

definition cidr4 :: "byte \<Rightarrow> byte \<Rightarrow> byte \<Rightarrow> byte \<Rightarrow> nat \<Rightarrow> IPNet" where
  "cidr4 a b c d ones = \<lparr>IP = IPv4 a b c d, Mask = CIDRMask ones 32\<rparr>"

definition ipFD00_5 :: IP where
  "ipFD00_5 = [0xfd, 0, 0, 0, 0, 0, 0, 0, 0, 0, 0, 0, 0, 0, 0, 5]"

text \<open>One IP (192.168.0.5/24) and one gateway (192.168.0.1).\<close>

definition exampleSingle :: PodAnnotation where
  "exampleSingle =
     \<lparr>IPs = [cidr4 192 168 0 5 24], MAC = exampleMAC, Gateways = [IPv4 192 168 0 1], Routes = []\<rparr>"

definition exampleSingleRecord :: podAnnotation where
  "exampleSingleRecord =
     \<lparr>ip_addresses = [''192.168.0.5/24''], mac_address = ''0a:58:fd:98:00:01'',
      gateway_ips = [''192.168.0.1''], routes = [],
      ip_address = ''192.168.0.5/24'', gateway_ip = ''192.168.0.1''\<rparr>"

definition annotationsOf :: "podAnnotation \<Rightarrow> (string \<rightharpoonup> annotation_value)" where
  "annotationsOf pa = [OvnPodAnnotationName \<mapsto> JSON [OvnPodDefaultNetwork \<mapsto> pa]]"

text \<open>Two IPs (192.168.0.5/24 and fd00::5/64) and one gateway.\<close>

definition exampleDual :: PodAnnotation where
  "exampleDual =
     \<lparr>IPs = [cidr4 192 168 0 5 24, \<lparr>IP = ipFD00_5, Mask = CIDRMask 64 128\<rparr>], MAC = exampleMAC,
      Gateways = [IPv4 192 168 0 1], Routes = []\<rparr>"

definition exampleDualRecord :: podAnnotation where
  "exampleDualRecord =
     \<lparr>ip_addresses = [''192.168.0.5/24'', ''fd00::5/64''], mac_address = ''0a:58:fd:98:00:01'',
      gateway_ips = [''192.168.0.1''], routes = [],
      ip_address = [], gateway_ip = []\<rparr>"

text \<open>One IP and two gateways.\<close>

definition exampleTwoGateways :: PodAnnotation where
  "exampleTwoGateways = exampleSingle\<lparr>Gateways := [IPv4 192 168 0 1, IPv4 192 168 0 2]\<rparr>"

text \<open>No IP and three gateways.\<close>

definition exampleNoIPs :: PodAnnotation where
  "exampleNoIPs =
     \<lparr>IPs = [], MAC = exampleMAC,
      Gateways = [IPv4 192 168 0 1, IPv4 192 168 0 2, IPv4 192 168 0 3], Routes = []\<rparr>"

definition exampleNoIPsRecord :: podAnnotation where
  "exampleNoIPsRecord =
     \<lparr>ip_addresses = [], mac_address = ''0a:58:fd:98:00:01'',
      gateway_ips = [''192.168.0.1'', ''192.168.0.2'', ''192.168.0.3''], routes = [],
      ip_address = [], gateway_ip = []\<rparr>"

text \<open>The record of the specification's conflict: \<open>ip_address\<close> against \<open>ip_addresses\<close>.\<close>

definition exampleConflictRecord :: podAnnotation where
  "exampleConflictRecord =
     \<lparr>ip_addresses = [''10.0.0.2/24''], mac_address = ''0a:58:fd:98:00:01'',
      gateway_ips = [], routes = [], ip_address = ''10.0.0.1/24'', gateway_ip = []\<rparr>"

text \<open>An annotation whose JSON has an entry for another network only.\<close>

definition exampleOtherNetwork :: "string \<rightharpoonup> annotation_value" where
  "exampleOtherNetwork = [OvnPodAnnotationName \<mapsto> JSON [''secondary'' \<mapsto> exampleSingleRecord]]"

text \<open>
  A pod whose status reports 10.244.0.7 and whose annotation holds 192.168.0.5/24; a pod
  with the annotation only; a pod of an old kubelet with \<^verbatim>\<open>Status.PodIP\<close> only.
\<close>

definition examplePodBoth :: Pod where
  "examplePodBoth =
     \<lparr>Namespace = ''ns'', Name = ''pod'', Annotations = annotationsOf exampleSingleRecord,
      Status_PodIPs = [''10.244.0.7''], Status_PodIP = ''10.244.0.7''\<rparr>"

definition examplePodAnnotated :: Pod where
  "examplePodAnnotated = examplePodBoth\<lparr>Status_PodIPs := [], Status_PodIP := ''10.244.0.7''\<rparr>"

definition examplePodLegacy :: Pod where
  "examplePodLegacy =
     \<lparr>Namespace = ''ns'', Name = ''pod'', Annotations = Map.empty,
      Status_PodIPs = [], Status_PodIP = ''10.244.0.7''\<rparr>"

text \<open>
  The reconciler of the test: the management port has 10.1.1.2/24 and 2001:db8::1/64,
  the masquerade addresses are 169.254.169.2 and fd69::2, and the node annotation holds
  10.1.1.10/24.
\<close>

definition exampleExcluded :: ExcludedAddressSet where
  "exampleExcluded =
     \<lparr>mgmtPortIPv4 = IPv4 10 1 1 2,
      mgmtPortIPv6 = [0x20, 0x01, 0x0d, 0xb8, 0, 0, 0, 0, 0, 0, 0, 0, 0, 0, 0, 1],
      masqueradeIPv4 = IPv4 169 254 169 2,
      masqueradeIPv6 = [0xfd, 0x69, 0, 0, 0, 0, 0, 0, 0, 0, 0, 0, 0, 0, 0, 2]\<rparr>"

definition exampleReconciler :: Reconciler where
  "exampleReconciler =
     \<lparr>phase = Subscribed, excluded = exampleExcluded,
      hostAddresses = {cidr4 10 1 1 10 24}, nodeAnnotation = {cidr4 10 1 1 10 24}\<rparr>"

text \<open>Two routes of a record: one with an IPv4 next hop, one with an IPv6 next hop.\<close>

definition exampleRouteV4 :: podRoute where
  "exampleRouteV4 = \<lparr>dest = ''10.1.0.0/16'', nextHop = ''192.168.0.1''\<rparr>"

definition exampleRouteMixed :: podRoute where
  "exampleRouteMixed = \<lparr>dest = ''10.1.0.0/16'', nextHop = ''fd00::1''\<rparr>"

section \<open>Properties of the encoder\<close>

lemma uitoa_nonempty: "uitoa n \<noteq> []"
  by (subst uitoa.simps) simp

lemma appendHex_nonempty: "appendHex n \<noteq> []"
  by (subst appendHex.simps) simp

lemma joinColon_nonempty: "xs \<noteq> [] \<Longrightarrow> hd xs \<noteq> [] \<Longrightarrow> joinColon xs \<noteq> []"
  by (cases xs) (auto simp: joinColon_def)

lemma groups_nonempty: "2 \<le> length p \<Longrightarrow> groups p \<noteq> []"
  by (cases p rule: groups.cases) auto

lemma string6_nonempty: "length p = 16 \<Longrightarrow> string6 p \<noteq> []"
proof -
  assume len: "length p = 16"
  then have g: "groups p \<noteq> []" by (simp add: groups_nonempty)
  then have "joinColon (map appendHex (groups p)) \<noteq> []"
    by (intro joinColon_nonempty) (auto simp: hd_map appendHex_nonempty)
  then show ?thesis
    by (auto simp: string6_def Let_def split: option.splits)
qed

lemma IP_String_nonempty: "IP_String ip \<noteq> []"
  by (auto simp: IP_String_def To4_def string4_def uitoa_nonempty string6_nonempty IPv4len_def IPv6len_def)

lemma IPNet_String_nonempty: "IPNet_String n \<noteq> []"
  by (auto simp: IPNet_String_def IP_String_nonempty split: option.splits)

lemma marshalRoutes_Inl:
  "marshalRoutes rs = Inl e \<Longrightarrow> \<exists>r \<in> set rs. IsUnspecified (IP (Dest r)) \<and> e = DefaultRoute r"
  by (induction rs) (auto split: if_splits sum.splits)

lemma marshalRoutes_Inr:
  "marshalRoutes rs = Inr out \<Longrightarrow> (\<forall>r \<in> set rs. \<not> IsUnspecified (IP (Dest r))) \<and> out = map marshalRoute rs"
  by (induction rs arbitrary: out) (auto split: if_splits sum.splits)

lemma marshalRoutes_ok:
  "\<forall>r \<in> set rs. \<not> IsUnspecified (IP (Dest r)) \<Longrightarrow> marshalRoutes rs = Inr (map marshalRoute rs)"
  by (induction rs) auto

lemma marshalRoutes_fails:
  "r \<in> set rs \<Longrightarrow> IsUnspecified (IP (Dest r)) \<Longrightarrow>
   \<exists>r' \<in> set rs. IsUnspecified (IP (Dest r')) \<and> marshalRoutes rs = Inl (DefaultRoute r')"
  by (induction rs) (auto split: sum.splits)


lemma marshalSingular_cases:
  "marshalSingular p pa =
     (if length (IPs p) = 1 \<and> length (Gateways p) > 1 then Inl MultipleGateways
      else Inr (pa\<lparr>ip_address := (if length (IPs p) = 1 then IPNet_String (IPs p ! 0) else ip_address pa),
                   gateway_ip := (if length (IPs p) = 1 \<and> length (Gateways p) = 1
                                  then IP_String (Gateways p ! 0) else gateway_ip pa)\<rparr>))"
  by (auto simp: marshalSingular_def Let_def)

lemma marshalRecord_Inl_iff:
  "(\<exists>e. marshalRecord p = Inl e) \<longleftrightarrow>
     (length (IPs p) = 1 \<and> length (Gateways p) > 1) \<or> (\<exists>r \<in> set (Routes p). IsUnspecified (IP (Dest r)))"
  by (auto simp: marshalRecord_def marshalSingular_cases Let_def
           split: sum.splits dest: marshalRoutes_Inl marshalRoutes_Inr marshalRoutes_fails)

lemma marshalRecord_Inr:
  "marshalRecord p = Inr pa \<Longrightarrow>
     pa = \<lparr>ip_addresses = map IPNet_String (IPs p),
           mac_address = HardwareAddr_String (MAC p),
           gateway_ips = map IP_String (Gateways p),
           routes = map marshalRoute (Routes p),
           ip_address = (if length (IPs p) = 1 then IPNet_String (IPs p ! 0) else []),
           gateway_ip = (if length (IPs p) = 1 \<and> length (Gateways p) = 1
                         then IP_String (Gateways p ! 0) else [])\<rparr>"
  by (auto simp: marshalRecord_def marshalSingular_cases Let_def zero_podAnnotation_def
           split: sum.splits if_splits dest: marshalRoutes_Inr)

lemma MarshalPodAnnotation_Inr:
  "MarshalPodAnnotation p = Inr anns \<longleftrightarrow>
     (\<exists>pa. marshalRecord p = Inr pa \<and> anns = [OvnPodAnnotationName \<mapsto> JSON [OvnPodDefaultNetwork \<mapsto> pa]])"
  by (auto simp: MarshalPodAnnotation_def split: sum.splits)

lemma MarshalPodAnnotation_Inl:
  "MarshalPodAnnotation p = Inl e \<longleftrightarrow> marshalRecord p = Inl e"
  by (auto simp: MarshalPodAnnotation_def split: sum.splits)

section \<open>Properties of the decoder\<close>

lemma unmarshalIPs_Inl: "unmarshalIPs xs = Inl e \<Longrightarrow> \<exists>s \<in> set xs. e = ParseIPFailed s"
  by (induction xs) (auto split: option.splits sum.splits)

lemma unmarshalIPs_length: "unmarshalIPs xs = Inr ys \<Longrightarrow> length ys = length xs"
  by (induction xs arbitrary: ys) (auto split: option.splits sum.splits)

lemma unmarshalGateways_Inl: "unmarshalGateways xs = Inl e \<Longrightarrow> \<exists>s \<in> set xs. e = ParseGatewayFailed s"
  by (induction xs) (auto simp: Let_def split: if_splits sum.splits)

lemma unmarshalRoute_Inl: "unmarshalRoute r = Inl e \<Longrightarrow> isInvalidConfig e"
  by (auto simp: unmarshalRoute_def Let_def split: option.splits if_splits)

lemma unmarshalRoutes_Inl: "unmarshalRoutes rs = Inl e \<Longrightarrow> isInvalidConfig e"
  by (induction rs) (auto split: sum.splits dest: unmarshalRoute_Inl)

lemma resolveIPs_Inl: "resolveIPs a = Inl e \<Longrightarrow> e = NoIPAddress \<or> e = IPAddressConflict"
  by (auto simp: resolveIPs_def split: if_splits)

lemma resolveIPs_Inr: "resolveIPs a = Inr ss \<Longrightarrow> ss \<noteq> []"
  by (auto simp: resolveIPs_def split: if_splits)

lemma resolveGateways_Inl: "resolveGateways a = Inl e \<Longrightarrow> e = GatewayConflict"
  by (auto simp: resolveGateways_def split: if_splits)

lemma unmarshalRecord_Inl: "unmarshalRecord a = Inl e \<Longrightarrow> isInvalidConfig e"
  unfolding unmarshalRecord_def
  by (auto split: option.splits sum.splits
           dest!: unmarshalIPs_Inl unmarshalGateways_Inl unmarshalRoutes_Inl resolveIPs_Inl
                  resolveGateways_Inl)

lemma unmarshalRecord_Inr:
  "unmarshalRecord a = Inr p \<longleftrightarrow>
     (\<exists>mac ipstrs ips gwstrs gws rs.
        ParseMAC (mac_address a) = Some mac \<and> resolveIPs a = Inr ipstrs \<and>
        unmarshalIPs ipstrs = Inr ips \<and> resolveGateways a = Inr gwstrs \<and>
        unmarshalGateways gwstrs = Inr gws \<and> unmarshalRoutes (routes a) = Inr rs \<and>
        p = \<lparr>IPs = ips, MAC = mac, Gateways = gws, Routes = rs\<rparr>)"
  unfolding unmarshalRecord_def
  by (auto split: option.splits sum.splits)

lemma unmarshalRecord_IPs_nonempty: "unmarshalRecord a = Inr p \<Longrightarrow> IPs p \<noteq> []"
  by (auto simp: unmarshalRecord_Inr dest!: unmarshalIPs_length resolveIPs_Inr)

lemma UnmarshalPodAnnotation_IPs_nonempty: "UnmarshalPodAnnotation anns = Inr p \<Longrightarrow> IPs p \<noteq> []"
  by (auto simp: UnmarshalPodAnnotation_def split: option.splits annotation_value.splits
           dest: unmarshalRecord_IPs_nonempty)

lemma UnmarshalPodAnnotation_JSON:
  "anns OvnPodAnnotationName = Some (JSON nets) \<Longrightarrow> nets OvnPodDefaultNetwork = Some a \<Longrightarrow>
   UnmarshalPodAnnotation anns = unmarshalRecord a"
  by (simp add: UnmarshalPodAnnotation_def)

lemma unmarshalRoutes_fails:
  "r \<in> set rs \<Longrightarrow> unmarshalRoute r = Inl e \<Longrightarrow> \<exists>e'. unmarshalRoutes rs = Inl e'"
  by (induction rs) (auto split: sum.splits)

lemma unmarshalRoutes_ok:
  "\<forall>r \<in> set rs. unmarshalRoute r = Inr (f r) \<Longrightarrow> unmarshalRoutes rs = Inr (map f rs)"
  by (induction rs) auto

lemma unmarshalRecord_routes_fail:
  "r \<in> set (routes a) \<Longrightarrow> unmarshalRoute r = Inl e \<Longrightarrow> \<exists>e'. unmarshalRecord a = Inl e'"
  unfolding unmarshalRecord_def
  by (auto split: option.splits sum.splits dest: unmarshalRoutes_fails)

lemma statusPodIPs_filter:
  "statusPodIPs xs = filter (\<lambda>ip. ip \<noteq> []) (map ParseIPSloppy xs)"
  by (induction xs) (auto simp: Let_def)

section \<open>Evaluation of the examples\<close>

lemma eval_unmarshal_exampleSingleRecord: "unmarshalRecord exampleSingleRecord = Inr exampleSingle"
  by code_simp

lemma eval_annotationsOf: "UnmarshalPodAnnotation (annotationsOf pa) = unmarshalRecord pa"
  by (simp add: UnmarshalPodAnnotation_def annotationsOf_def)

lemma eval_statusPodIPs: "statusPodIPs [''10.244.0.7''] = [IPv4 10 244 0 7]"
  by code_simp

lemma eval_ParseIPSloppy: "ParseIPSloppy ''10.244.0.7'' = IPv4 10 244 0 7"
  by code_simp

lemma eval_IPs_exampleSingle: "map IP (IPs exampleSingle) = [IPv4 192 168 0 5]"
  by code_simp

lemma IPv4_nonempty: "IPv4 a b c d \<noteq> []"
  by (simp add: IPv4_def)

lemma IPv4_inject: "IPv4 a b c d = IPv4 a' b' c' d' \<longleftrightarrow> a = a' \<and> b = b' \<and> c = c' \<and> d = d'"
  by (simp add: IPv4_def)

lemma eval_marshal_exampleSingle: "marshalRecord exampleSingle = Inr exampleSingleRecord"
  by code_simp

lemma eval_marshal_exampleDual: "marshalRecord exampleDual = Inr exampleDualRecord"
  by code_simp

lemma eval_marshal_exampleNoIPs: "marshalRecord exampleNoIPs = Inr exampleNoIPsRecord"
  by code_simp

lemma MarshalPodAnnotation_annotationsOf:
  "marshalRecord p = Inr pa \<Longrightarrow> MarshalPodAnnotation p = Inr (annotationsOf pa)"
  by (simp add: MarshalPodAnnotation_def annotationsOf_def)

lemma annotationsOf_inject: "annotationsOf pa = annotationsOf pa' \<longleftrightarrow> pa = pa'"
proof
  assume "annotationsOf pa = annotationsOf pa'"
  then have "annotationsOf pa OvnPodAnnotationName = annotationsOf pa' OvnPodAnnotationName"
    by simp
  then have "[OvnPodDefaultNetwork \<mapsto> pa] = [OvnPodDefaultNetwork \<mapsto> pa']"
    by (simp add: annotationsOf_def)
  then have "[OvnPodDefaultNetwork \<mapsto> pa] OvnPodDefaultNetwork = [OvnPodDefaultNetwork \<mapsto> pa'] OvnPodDefaultNetwork"
    by simp
  then show "pa = pa'" by simp
qed simp

lemma eval_unmarshal_exampleConflictRecord:
  "unmarshalRecord exampleConflictRecord = Inl IPAddressConflict"
  by code_simp

lemma eval_ParseMAC_empty: "ParseMAC [] = None"
  by (simp add: ParseMAC_def)

lemma unmarshalRecord_zero: "unmarshalRecord zero_podAnnotation = Inl (ParseMACFailed [])"
  by (simp add: unmarshalRecord_def zero_podAnnotation_def eval_ParseMAC_empty)

lemma resolveIPs_conflict:
  "ip_addresses a \<noteq> [] \<Longrightarrow> ip_address a \<noteq> [] \<Longrightarrow> ip_address a \<noteq> ip_addresses a ! 0 \<Longrightarrow>
   resolveIPs a = Inl IPAddressConflict"
  by (simp add: resolveIPs_def)

lemma resolveGateways_conflict:
  "gateway_ips a \<noteq> [] \<Longrightarrow> gateway_ip a \<noteq> [] \<Longrightarrow> gateway_ip a \<noteq> gateway_ips a ! 0 \<Longrightarrow>
   resolveGateways a = Inl GatewayConflict"
  by (simp add: resolveGateways_def)

lemma unmarshalRecord_stage_fails:
  "resolveIPs a = Inl e \<or> resolveGateways a = Inl e \<Longrightarrow> \<exists>e'. unmarshalRecord a = Inl e'"
  unfolding unmarshalRecord_def by (auto split: option.splits sum.splits)

lemma writeAnnotation_excluded: "excluded (writeAnnotation r ok) = excluded r"
  by (simp add: writeAnnotation_def)

lemma writeAnnotation_phase: "phase (writeAnnotation r ok) = phase r"
  by (simp add: writeAnnotation_def)

lemma writeAnnotation_ok: "nodeAnnotation (writeAnnotation r True) = hostAddresses r"
  by (simp add: writeAnnotation_def)

lemma step_excluded: "excluded (step r i) = excluded r"
  by (cases i) (simp_all add: resync_def handleAddressEvent_def writeAnnotation_excluded)

lemma run_excluded: "excluded (run r inputs) = excluded r"
  by (induction inputs arbitrary: r) (simp_all add: step_excluded)

lemma run_append: "run r (xs @ ys) = run (run r xs) ys"
  by (induction xs arbitrary: r) simp_all

lemma step_not_Stopped: "phase r \<noteq> Stopped \<Longrightarrow> i \<noteq> StopSignal \<Longrightarrow> phase (step r i) \<noteq> Stopped"
  by (cases i) (simp_all add: resync_def handleAddressEvent_def writeAnnotation_phase)

lemma run_not_Stopped:
  "phase r \<noteq> Stopped \<Longrightarrow> StopSignal \<notin> set inputs \<Longrightarrow> phase (run r inputs) \<noteq> Stopped"
proof (induction inputs arbitrary: r)
  case Nil
  then show ?case by simp
next
  case (Cons i inputs)
  from Cons.prems have "phase (step r i) \<noteq> Stopped"
    by (intro step_not_Stopped) auto
  with Cons show ?case by simp
qed

lemma failed_attempts_Resubscribing:
  "phase r = Resubscribing \<Longrightarrow> \<forall>i \<in> set fails. \<exists>cur ok. i = SubscribeAttempt False cur ok \<Longrightarrow>
   phase (run r fails) = Resubscribing"
proof (induction fails arbitrary: r)
  case Nil
  then show ?case by simp
next
  case (Cons i fails)
  from Cons.prems obtain cur ok where i: "i = SubscribeAttempt False cur ok" by auto
  with Cons.prems have "phase (step r i) = Resubscribing" by simp
  with Cons show ?case by simp
qed

lemma handleAddressEvent_excluded_address:
  "\<not> IsPublishable (excluded r) a \<Longrightarrow> handleAddressEvent r a isAdd apiOk = r"
  by (simp add: handleAddressEvent_def)

lemma handleAddressEvent_add:
  "IsPublishable (excluded r) a \<Longrightarrow> a \<in> nodeAnnotation (handleAddressEvent r a True True)"
  by (simp add: handleAddressEvent_def writeAnnotation_ok)

lemma handleAddressEvent_remove:
  "IsPublishable (excluded r) a \<Longrightarrow> a \<notin> nodeAnnotation (handleAddressEvent r a False True)"
  by (simp add: handleAddressEvent_def writeAnnotation_ok)

lemma handleAddressEvent_phase: "phase (handleAddressEvent r a isAdd apiOk) = phase r"
  by (simp add: handleAddressEvent_def writeAnnotation_phase)

lemma handleAddressEvent_excluded: "excluded (handleAddressEvent r a isAdd apiOk) = excluded r"
  by (simp add: handleAddressEvent_def writeAnnotation_excluded)

lemma eval_excluded_mgmt: "Equal (IP (cidr4 10 1 1 2 24)) (mgmtPortIPv4 (excluded exampleReconciler))"
  by code_simp

lemma eval_publishable: "IsPublishable (excluded exampleReconciler) (cidr4 10 1 1 10 24)"
  by code_simp

lemma resolveIPs_routes [simp]: "resolveIPs (a\<lparr>routes := rs\<rparr>) = resolveIPs a"
  by (simp add: resolveIPs_def)

lemma resolveGateways_routes [simp]: "resolveGateways (a\<lparr>routes := rs\<rparr>) = resolveGateways a"
  by (simp add: resolveGateways_def)

lemma unmarshalRecord_routes:
  "unmarshalRecord (a\<lparr>routes := []\<rparr>) = Inr q \<Longrightarrow> unmarshalRoutes (routes a) = Inr rs \<Longrightarrow>
   unmarshalRecord a = Inr (q\<lparr>Routes := rs\<rparr>)"
  by (auto simp: unmarshalRecord_Inr)

lemma unmarshalRecord_routes_Inl:
  "unmarshalRecord (a\<lparr>routes := []\<rparr>) = Inr q \<Longrightarrow> unmarshalRoutes (routes a) = Inl e \<Longrightarrow>
   unmarshalRecord a = Inl e"
  by (auto simp: unmarshalRecord_Inr) (simp add: unmarshalRecord_def)

lemma eval_exampleRouteV4:
  "unmarshalRoute exampleRouteV4
     = Inr \<lparr>Dest = \<lparr>IP = [10, 1, 0, 0], Mask = [255, 255, 0, 0]\<rparr>, NextHop = Some (IPv4 192 168 0 1)\<rparr>"
  by code_simp

lemma eval_exampleRouteMixed_dest:
  "ParseCIDR (dest exampleRouteMixed)
     = Some (IPv4 10 1 0 0, \<lparr>IP = [10, 1, 0, 0], Mask = [255, 255, 0, 0]\<rparr>)"
  by code_simp

lemma eval_exampleRouteMixed_facts:
  "\<not> IsUnspecified [10, 1, 0, 0] \<and> nextHop exampleRouteMixed \<noteq> [] \<and>
   ParseIP (nextHop exampleRouteMixed) \<noteq> [] \<and>
   IsIPv6 (ParseIP (nextHop exampleRouteMixed)) \<and>
   \<not> IsIPv6CIDR \<lparr>IP = [10, 1, 0, 0], Mask = [255, 255, 0, 0]\<rparr>"
  by code_simp

lemma eval_exampleRouteV4_facts:
  "ParseCIDR (dest exampleRouteV4)
     = Some (IPv4 10 1 0 0, \<lparr>IP = [10, 1, 0, 0], Mask = [255, 255, 0, 0]\<rparr>) \<and>
   nextHop exampleRouteV4 \<noteq> [] \<and>
   ParseIP (nextHop exampleRouteV4) = IPv4 192 168 0 1 \<and>
   \<not> IsIPv6 (IPv4 192 168 0 1)"
  by code_simp

section \<open>The claims\<close>

subsection \<open>C1: the order of the address sources\<close>

text \<open>
  C1 (as amended). \<^verbatim>\<open>GetAllPodIPs\<close> consults the status addresses of the pod first: when
  one entry of \<^verbatim>\<open>Status.PodIPs\<close> parses, the entries that parse are returned, whatever
  the annotation holds. Only when none parses is the pod-network annotation read,
  and its IPs are returned when it is present and valid. Only when it is not is the
  legacy field \<^verbatim>\<open>Status.PodIP\<close> used, and an error returned when that does not parse.
\<close>

theorem GetAllPodIPs_priority:
  "(statusPodIPs (Status_PodIPs pod) \<noteq> [] \<longrightarrow>
      GetAllPodIPs pod = Inr (filter (\<lambda>ip. ip \<noteq> []) (map ParseIPSloppy (Status_PodIPs pod)))) \<and>
   (statusPodIPs (Status_PodIPs pod) = [] \<longrightarrow>
      UnmarshalPodAnnotation (Annotations pod) = Inr a \<longrightarrow>
      GetAllPodIPs pod = Inr (map IP (IPs a)) \<and> IPs a \<noteq> []) \<and>
   (statusPodIPs (Status_PodIPs pod) = [] \<longrightarrow>
      UnmarshalPodAnnotation (Annotations pod) = Inl e \<longrightarrow>
      GetAllPodIPs pod =
        (if ParseIPSloppy (Status_PodIP pod) = [] then Inl (NoPodIPFound (Namespace pod) (Name pod))
         else Inr [ParseIPSloppy (Status_PodIP pod)]))"
proof -
  have first: "statusPodIPs (Status_PodIPs pod) \<noteq> [] \<longrightarrow>
      GetAllPodIPs pod = Inr (filter (\<lambda>ip. ip \<noteq> []) (map ParseIPSloppy (Status_PodIPs pod)))"
    by (simp add: GetAllPodIPs_def statusPodIPs_filter)
  have second: "statusPodIPs (Status_PodIPs pod) = [] \<longrightarrow>
      UnmarshalPodAnnotation (Annotations pod) = Inr a \<longrightarrow>
      GetAllPodIPs pod = Inr (map IP (IPs a)) \<and> IPs a \<noteq> []"
  proof (intro impI)
    assume none: "statusPodIPs (Status_PodIPs pod) = []"
      and ok: "UnmarshalPodAnnotation (Annotations pod) = Inr a"
    from ok have ne: "IPs a \<noteq> []" by (rule UnmarshalPodAnnotation_IPs_nonempty)
    with none ok show "GetAllPodIPs pod = Inr (map IP (IPs a)) \<and> IPs a \<noteq> []"
      by (simp add: GetAllPodIPs_def)
  qed
  have third: "statusPodIPs (Status_PodIPs pod) = [] \<longrightarrow>
      UnmarshalPodAnnotation (Annotations pod) = Inl e \<longrightarrow>
      GetAllPodIPs pod =
        (if ParseIPSloppy (Status_PodIP pod) = [] then Inl (NoPodIPFound (Namespace pod) (Name pod))
         else Inr [ParseIPSloppy (Status_PodIP pod)])"
    by (simp add: GetAllPodIPs_def fallbackPodIP_def Let_def)
  from first second third show ?thesis by blast
qed

theorem GetAllPodIPs_priority_witness:
  "GetAllPodIPs examplePodBoth = Inr [IPv4 10 244 0 7] \<and>
   GetAllPodIPs examplePodAnnotated = Inr [IPv4 192 168 0 5] \<and>
   GetAllPodIPs examplePodLegacy = Inr [IPv4 10 244 0 7]"
proof -
  have s1: "statusPodIPs (Status_PodIPs examplePodBoth) \<noteq> []"
    by (simp add: examplePodBoth_def eval_statusPodIPs del: statusPodIPs.simps)
  have s2: "statusPodIPs (Status_PodIPs examplePodAnnotated) = []"
    by (simp add: examplePodAnnotated_def examplePodBoth_def)
  have u2: "UnmarshalPodAnnotation (Annotations examplePodAnnotated) = Inr exampleSingle"
    by (simp add: examplePodAnnotated_def examplePodBoth_def eval_annotationsOf
        eval_unmarshal_exampleSingleRecord)
  have s3: "statusPodIPs (Status_PodIPs examplePodLegacy) = []"
    by (simp add: examplePodLegacy_def)
  have u3: "UnmarshalPodAnnotation (Annotations examplePodLegacy) = Inl AnnotationNotSet"
    by (simp add: examplePodLegacy_def UnmarshalPodAnnotation_def)
  have "GetAllPodIPs examplePodBoth = Inr [IPv4 10 244 0 7]"
    using GetAllPodIPs_priority [of examplePodBoth exampleSingle AnnotationNotSet] s1
    by (simp add: examplePodBoth_def eval_ParseIPSloppy IPv4_nonempty)
  moreover have "GetAllPodIPs examplePodAnnotated = Inr [IPv4 192 168 0 5]"
    using GetAllPodIPs_priority [of examplePodAnnotated exampleSingle AnnotationNotSet] s2 u2
    by (simp add: eval_IPs_exampleSingle)
  moreover have "GetAllPodIPs examplePodLegacy = Inr [IPv4 10 244 0 7]"
    using GetAllPodIPs_priority [of examplePodLegacy exampleSingle AnnotationNotSet] s3 u3
    by (simp add: examplePodLegacy_def eval_ParseIPSloppy IPv4_nonempty)
  ultimately show ?thesis by simp
qed

text \<open>
  C1, counterexample. The pod \<open>examplePodBoth\<close> has a present and valid annotation with
  the IP 192.168.0.5, and a status that reports 10.244.0.7: the status address is
  returned, not the IP of the annotation.
\<close>

theorem GetAllPodIPs_annotation_first_counterexample:
  "UnmarshalPodAnnotation (Annotations examplePodBoth) = Inr exampleSingle \<and>
   map IP (IPs exampleSingle) = [IPv4 192 168 0 5] \<and>
   GetAllPodIPs examplePodBoth = Inr [IPv4 10 244 0 7] \<and>
   GetAllPodIPs examplePodBoth \<noteq> Inr (map IP (IPs exampleSingle))"
proof -
  have u: "UnmarshalPodAnnotation (Annotations examplePodBoth) = Inr exampleSingle"
    by (simp add: examplePodBoth_def eval_annotationsOf eval_unmarshal_exampleSingleRecord)
  have g: "GetAllPodIPs examplePodBoth = Inr [IPv4 10 244 0 7]"
    by (simp add: GetAllPodIPs_def examplePodBoth_def eval_statusPodIPs del: statusPodIPs.simps)
  show ?thesis
    using u g by (simp add: eval_IPs_exampleSingle IPv4_inject)
qed

subsection \<open>C3 and C10: the deprecated fields and the errors of the encoder\<close>

text \<open>
  C3 (as amended). When the encoder succeeds, \<open>ip_address\<close> is populated exactly when there
  is one IP, and \<open>gateway_ip\<close> exactly when there is one IP and one gateway: with two IPs
  or more neither deprecated field is written, whatever the number of gateways. An
  annotation with one IP and more than one gateway is refused with the error
  \<^verbatim>\<open>single-stack network can only have a single gateway\<close>.
\<close>

theorem MarshalPodAnnotation_singular_fields:
  "(MarshalPodAnnotation p = Inr anns \<longrightarrow>
      (\<exists>pa. anns = annotationsOf pa \<and>
         (ip_address pa \<noteq> [] \<longleftrightarrow> length (IPs p) = 1) \<and>
         (gateway_ip pa \<noteq> [] \<longleftrightarrow> length (IPs p) = 1 \<and> length (Gateways p) = 1) \<and>
         (length (IPs p) = 1 \<longrightarrow> ip_address pa = IPNet_String (IPs p ! 0)) \<and>
         (length (IPs p) = 1 \<and> length (Gateways p) = 1 \<longrightarrow>
            gateway_ip pa = IP_String (Gateways p ! 0)))) \<and>
   (length (IPs p) = 1 \<and> length (Gateways p) > 1 \<longrightarrow>
      MarshalPodAnnotation p = Inl MultipleGateways \<and>
      isInvalidConfig MultipleGateways \<and>
      errorFormat MultipleGateways =
        ''bad podNetwork data: single-stack network can only have a single gateway'')"
proof -
  have ok: "MarshalPodAnnotation p = Inr anns \<longrightarrow>
      (\<exists>pa. anns = annotationsOf pa \<and>
         (ip_address pa \<noteq> [] \<longleftrightarrow> length (IPs p) = 1) \<and>
         (gateway_ip pa \<noteq> [] \<longleftrightarrow> length (IPs p) = 1 \<and> length (Gateways p) = 1) \<and>
         (length (IPs p) = 1 \<longrightarrow> ip_address pa = IPNet_String (IPs p ! 0)) \<and>
         (length (IPs p) = 1 \<and> length (Gateways p) = 1 \<longrightarrow>
            gateway_ip pa = IP_String (Gateways p ! 0)))"
  proof
    assume "MarshalPodAnnotation p = Inr anns"
    then obtain pa where rec: "marshalRecord p = Inr pa" and anns: "anns = annotationsOf pa"
      by (auto simp: MarshalPodAnnotation_Inr annotationsOf_def)
    from rec have ip: "ip_address pa = (if length (IPs p) = 1 then IPNet_String (IPs p ! 0) else [])"
      and gw: "gateway_ip pa = (if length (IPs p) = 1 \<and> length (Gateways p) = 1
                         then IP_String (Gateways p ! 0) else [])"
      by (auto dest: marshalRecord_Inr)
    from ip gw anns show "\<exists>pa. anns = annotationsOf pa \<and>
         (ip_address pa \<noteq> [] \<longleftrightarrow> length (IPs p) = 1) \<and>
         (gateway_ip pa \<noteq> [] \<longleftrightarrow> length (IPs p) = 1 \<and> length (Gateways p) = 1) \<and>
         (length (IPs p) = 1 \<longrightarrow> ip_address pa = IPNet_String (IPs p ! 0)) \<and>
         (length (IPs p) = 1 \<and> length (Gateways p) = 1 \<longrightarrow>
            gateway_ip pa = IP_String (Gateways p ! 0))"
      by (intro exI [of _ pa]) (simp add: IP_String_nonempty IPNet_String_nonempty)
  qed
  have err: "length (IPs p) = 1 \<and> length (Gateways p) > 1 \<longrightarrow>
      MarshalPodAnnotation p = Inl MultipleGateways"
    by (simp add: MarshalPodAnnotation_def marshalRecord_def marshalSingular_cases)
  from ok err show ?thesis by simp
qed

theorem MarshalPodAnnotation_singular_fields_witness:
  "MarshalPodAnnotation exampleSingle = Inr (annotationsOf exampleSingleRecord) \<and>
   ip_address exampleSingleRecord = ''192.168.0.5/24'' \<and>
   gateway_ip exampleSingleRecord = ''192.168.0.1'' \<and>
   MarshalPodAnnotation exampleTwoGateways = Inl MultipleGateways"
proof -
  have m: "MarshalPodAnnotation exampleSingle = Inr (annotationsOf exampleSingleRecord)"
    by (simp add: MarshalPodAnnotation_annotationsOf eval_marshal_exampleSingle)
  have l: "length (IPs exampleTwoGateways) = 1 \<and> length (Gateways exampleTwoGateways) > 1"
    by (simp add: exampleTwoGateways_def exampleSingle_def)
  have "MarshalPodAnnotation exampleTwoGateways = Inl MultipleGateways"
    using MarshalPodAnnotation_singular_fields [of exampleTwoGateways anns] l by blast
  moreover from MarshalPodAnnotation_singular_fields [of exampleSingle "annotationsOf exampleSingleRecord"] m
  obtain pa where "annotationsOf exampleSingleRecord = annotationsOf pa"
    and "ip_address pa \<noteq> [] \<longleftrightarrow> length (IPs exampleSingle) = 1"
    by blast
  ultimately show ?thesis
    using m by (simp add: exampleSingleRecord_def)
qed

text \<open>
  C3, counterexample. \<open>exampleDual\<close> has two IPs and exactly one gateway; the encoder
  succeeds and leaves \<open>gateway_ip\<close> empty, although there is exactly one gateway.
\<close>

theorem MarshalPodAnnotation_gateway_ip_counterexample:
  "length (Gateways exampleDual) = 1 \<and>
   MarshalPodAnnotation exampleDual = Inr (annotationsOf exampleDualRecord) \<and>
   gateway_ip exampleDualRecord = []"
  by (simp add: MarshalPodAnnotation_annotationsOf eval_marshal_exampleDual)
     (simp add: exampleDual_def exampleDualRecord_def)

text \<open>
  C10. \<^verbatim>\<open>MarshalPodAnnotation\<close> returns an error in two cases only: one IP with more than
  one gateway, or a route whose destination is the unspecified address. The error is
  then the one of the gateways or the one of a default route. With no IP at all the
  number of gateways is not checked: the encoder fails only for a default route.
\<close>

theorem MarshalPodAnnotation_error_cases:
  "((\<exists>e. MarshalPodAnnotation p = Inl e) \<longleftrightarrow>
      (length (IPs p) = 1 \<and> length (Gateways p) > 1) \<or>
      (\<exists>r \<in> set (Routes p). IsUnspecified (IP (Dest r)))) \<and>
   (MarshalPodAnnotation p = Inl e \<longrightarrow>
      e = MultipleGateways \<or> (\<exists>r \<in> set (Routes p). IsUnspecified (IP (Dest r)) \<and> e = DefaultRoute r)) \<and>
   (IPs p = [] \<longrightarrow> (\<forall>r \<in> set (Routes p). \<not> IsUnspecified (IP (Dest r))) \<longrightarrow>
      (\<exists>anns. MarshalPodAnnotation p = Inr anns))"
proof -
  have iff: "(\<exists>e. MarshalPodAnnotation p = Inl e) \<longleftrightarrow>
      (length (IPs p) = 1 \<and> length (Gateways p) > 1) \<or>
      (\<exists>r \<in> set (Routes p). IsUnspecified (IP (Dest r)))"
    by (simp add: MarshalPodAnnotation_Inl marshalRecord_Inl_iff)
  have which: "MarshalPodAnnotation p = Inl e \<longrightarrow>
      e = MultipleGateways \<or> (\<exists>r \<in> set (Routes p). IsUnspecified (IP (Dest r)) \<and> e = DefaultRoute r)"
    by (auto simp: MarshalPodAnnotation_Inl marshalRecord_def marshalSingular_cases
             split: sum.splits if_splits dest: marshalRoutes_Inl)
  have none: "IPs p = [] \<longrightarrow> (\<forall>r \<in> set (Routes p). \<not> IsUnspecified (IP (Dest r))) \<longrightarrow>
      (\<exists>anns. MarshalPodAnnotation p = Inr anns)"
  proof (intro impI)
    assume "IPs p = []" and "\<forall>r \<in> set (Routes p). \<not> IsUnspecified (IP (Dest r))"
    with iff have "\<not> (\<exists>e. MarshalPodAnnotation p = Inl e)" by simp
    then show "\<exists>anns. MarshalPodAnnotation p = Inr anns"
      by (cases "MarshalPodAnnotation p") auto
  qed
  from iff which none show ?thesis by blast
qed

theorem MarshalPodAnnotation_error_cases_witness:
  "IPs exampleNoIPs = [] \<and> length (Gateways exampleNoIPs) = 3 \<and>
   MarshalPodAnnotation exampleNoIPs = Inr (annotationsOf exampleNoIPsRecord)"
proof -
  have "\<exists>anns. MarshalPodAnnotation exampleNoIPs = Inr anns"
    using MarshalPodAnnotation_error_cases [of exampleNoIPs e]
    by (simp add: exampleNoIPs_def)
  then show ?thesis
    by (simp add: MarshalPodAnnotation_annotationsOf eval_marshal_exampleNoIPs)
       (simp add: exampleNoIPs_def)
qed

subsection \<open>C4 and C7: conflicting fields and a missing default entry\<close>

text \<open>
  C4. A record in which the singular and the plural form of a field are both set and
  disagree is never decoded: \<^verbatim>\<open>UnmarshalPodAnnotation\<close> returns an error of the kind
  \<open>InvalidConfig\<close>. When the MAC parses, a disagreement of \<open>ip_address\<close> with the first
  of \<open>ip_addresses\<close> gives the error of the IP conflict; when the MAC and the IPs are
  accepted, a disagreement of \<open>gateway_ip\<close> with the first of \<open>gateway_ips\<close> gives the
  error of the gateway conflict.
\<close>

theorem UnmarshalPodAnnotation_conflict:
  assumes "annotations OvnPodAnnotationName = Some (JSON podNetworks)"
    and "podNetworks OvnPodDefaultNetwork = Some a"
  shows "((ip_addresses a \<noteq> [] \<and> ip_address a \<noteq> [] \<and> ip_address a \<noteq> ip_addresses a ! 0) \<or>
          (gateway_ips a \<noteq> [] \<and> gateway_ip a \<noteq> [] \<and> gateway_ip a \<noteq> gateway_ips a ! 0) \<longrightarrow>
            (\<exists>e. UnmarshalPodAnnotation annotations = Inl e \<and> isInvalidConfig e)) \<and>
         (ip_addresses a \<noteq> [] \<and> ip_address a \<noteq> [] \<and> ip_address a \<noteq> ip_addresses a ! 0 \<longrightarrow>
            ParseMAC (mac_address a) \<noteq> None \<longrightarrow>
            UnmarshalPodAnnotation annotations = Inl IPAddressConflict) \<and>
         (gateway_ips a \<noteq> [] \<and> gateway_ip a \<noteq> [] \<and> gateway_ip a \<noteq> gateway_ips a ! 0 \<longrightarrow>
            ParseMAC (mac_address a) \<noteq> None \<longrightarrow>
            resolveIPs a = Inr ipstrs \<longrightarrow> unmarshalIPs ipstrs = Inr ips \<longrightarrow>
            UnmarshalPodAnnotation annotations = Inl GatewayConflict)"
proof -
  have u: "UnmarshalPodAnnotation annotations = unmarshalRecord a"
    using assms by (rule UnmarshalPodAnnotation_JSON)
  have fails: "(ip_addresses a \<noteq> [] \<and> ip_address a \<noteq> [] \<and> ip_address a \<noteq> ip_addresses a ! 0) \<or>
          (gateway_ips a \<noteq> [] \<and> gateway_ip a \<noteq> [] \<and> gateway_ip a \<noteq> gateway_ips a ! 0) \<longrightarrow>
            (\<exists>e. UnmarshalPodAnnotation annotations = Inl e \<and> isInvalidConfig e)"
  proof
    assume "(ip_addresses a \<noteq> [] \<and> ip_address a \<noteq> [] \<and> ip_address a \<noteq> ip_addresses a ! 0) \<or>
          (gateway_ips a \<noteq> [] \<and> gateway_ip a \<noteq> [] \<and> gateway_ip a \<noteq> gateway_ips a ! 0)"
    then have "resolveIPs a = Inl IPAddressConflict \<or> resolveGateways a = Inl GatewayConflict"
      by (auto simp: resolveIPs_conflict resolveGateways_conflict)
    then obtain e where e: "unmarshalRecord a = Inl e"
      using unmarshalRecord_stage_fails [of a IPAddressConflict]
        unmarshalRecord_stage_fails [of a GatewayConflict] by blast
    then have "isInvalidConfig e" by (rule unmarshalRecord_Inl)
    with e u show "\<exists>e. UnmarshalPodAnnotation annotations = Inl e \<and> isInvalidConfig e"
      by simp
  qed
  have ip: "ip_addresses a \<noteq> [] \<and> ip_address a \<noteq> [] \<and> ip_address a \<noteq> ip_addresses a ! 0 \<longrightarrow>
            ParseMAC (mac_address a) \<noteq> None \<longrightarrow>
            UnmarshalPodAnnotation annotations = Inl IPAddressConflict"
    by (auto simp: u unmarshalRecord_def resolveIPs_conflict)
  have gw: "gateway_ips a \<noteq> [] \<and> gateway_ip a \<noteq> [] \<and> gateway_ip a \<noteq> gateway_ips a ! 0 \<longrightarrow>
            ParseMAC (mac_address a) \<noteq> None \<longrightarrow>
            resolveIPs a = Inr ipstrs \<longrightarrow> unmarshalIPs ipstrs = Inr ips \<longrightarrow>
            UnmarshalPodAnnotation annotations = Inl GatewayConflict"
    by (auto simp: u unmarshalRecord_def resolveGateways_conflict)
  from fails ip gw show ?thesis by blast
qed

theorem UnmarshalPodAnnotation_conflict_witness:
  "ip_address exampleConflictRecord = ''10.0.0.1/24'' \<and>
   ip_addresses exampleConflictRecord = [''10.0.0.2/24''] \<and>
   UnmarshalPodAnnotation (annotationsOf exampleConflictRecord) = Inl IPAddressConflict \<and>
   isInvalidConfig IPAddressConflict"
proof -
  have a: "annotationsOf exampleConflictRecord OvnPodAnnotationName
             = Some (JSON [OvnPodDefaultNetwork \<mapsto> exampleConflictRecord])"
    by (simp add: annotationsOf_def)
  have b: "[OvnPodDefaultNetwork \<mapsto> exampleConflictRecord] OvnPodDefaultNetwork
             = Some exampleConflictRecord"
    by simp
  have c: "ip_addresses exampleConflictRecord \<noteq> [] \<and> ip_address exampleConflictRecord \<noteq> [] \<and>
           ip_address exampleConflictRecord \<noteq> ip_addresses exampleConflictRecord ! 0"
    by (simp add: exampleConflictRecord_def)
  have d: "ParseMAC (mac_address exampleConflictRecord) \<noteq> None"
    by code_simp
  from UnmarshalPodAnnotation_conflict
         [of "annotationsOf exampleConflictRecord" "[OvnPodDefaultNetwork \<mapsto> exampleConflictRecord]"
             exampleConflictRecord, OF a b] c d
  have "UnmarshalPodAnnotation (annotationsOf exampleConflictRecord) = Inl IPAddressConflict"
    by blast
  then show ?thesis by (simp add: exampleConflictRecord_def)
qed

text \<open>
  C7. When the value of the annotation is JSON with no entry for the network
  \<^verbatim>\<open>default\<close>, \<^verbatim>\<open>UnmarshalPodAnnotation\<close> goes on with the empty record: the result is the
  one for an entry \<^verbatim>\<open>default\<close> that holds the empty record. It is neither the error of a
  missing annotation nor the error of a malformed one, but the failure of the first
  requirement on the fields, the MAC, which the empty record does not meet.
\<close>

theorem UnmarshalPodAnnotation_missing_default:
  assumes "annotations OvnPodAnnotationName = Some (JSON podNetworks)"
    and "podNetworks OvnPodDefaultNetwork = None"
  shows "UnmarshalPodAnnotation annotations = UnmarshalPodAnnotation (annotationsOf zero_podAnnotation) \<and>
         UnmarshalPodAnnotation annotations = unmarshalRecord zero_podAnnotation \<and>
         UnmarshalPodAnnotation annotations = Inl (ParseMACFailed []) \<and>
         isInvalidConfig (ParseMACFailed []) \<and>
         UnmarshalPodAnnotation annotations \<noteq> Inl AnnotationNotSet \<and>
         (\<forall>s. UnmarshalPodAnnotation annotations \<noteq> Inl (UnmarshalFailed s))"
proof -
  have "UnmarshalPodAnnotation annotations = unmarshalRecord zero_podAnnotation"
    using assms by (simp add: UnmarshalPodAnnotation_def)
  moreover have "UnmarshalPodAnnotation (annotationsOf zero_podAnnotation) = unmarshalRecord zero_podAnnotation"
    by (simp add: UnmarshalPodAnnotation_def annotationsOf_def)
  ultimately show ?thesis
    by (simp add: unmarshalRecord_zero)
qed

theorem UnmarshalPodAnnotation_missing_default_witness:
  "exampleOtherNetwork OvnPodAnnotationName = Some (JSON [''secondary'' \<mapsto> exampleSingleRecord]) \<and>
   UnmarshalPodAnnotation exampleOtherNetwork = Inl (ParseMACFailed [])"
proof -
  have a: "exampleOtherNetwork OvnPodAnnotationName = Some (JSON [''secondary'' \<mapsto> exampleSingleRecord])"
    by (simp add: exampleOtherNetwork_def)
  have b: "[''secondary'' \<mapsto> exampleSingleRecord] OvnPodDefaultNetwork = None"
    by (simp add: OvnPodDefaultNetwork_def)
  from UnmarshalPodAnnotation_missing_default
         [of exampleOtherNetwork "[''secondary'' \<mapsto> exampleSingleRecord]", OF a b] a
  show ?thesis
    by blast
qed

subsection \<open>C8 and C9: the node address reconciler\<close>

text \<open>
  C8. An add or remove event whose address equals a management-port address or a
  masquerade address, whatever its prefix length, leaves the reconciler as it is, in
  every state. Adding and then removing such an address never changes the published
  node annotation.
\<close>

theorem excluded_address_event_ignored:
  assumes "Equal (IP a) (mgmtPortIPv4 (excluded r)) \<or> Equal (IP a) (mgmtPortIPv6 (excluded r)) \<or>
           Equal (IP a) (masqueradeIPv4 (excluded r)) \<or> Equal (IP a) (masqueradeIPv6 (excluded r))"
  shows "\<not> IsPublishable (excluded r) (a\<lparr>Mask := m\<rparr>) \<and>
         step r (AddressEvent (a\<lparr>Mask := m\<rparr>) isAdd apiOk) = r \<and>
         run r [AddressEvent a True ok1, AddressEvent a False ok2] = r \<and>
         nodeAnnotation (run r [AddressEvent a True ok1, AddressEvent a False ok2]) = nodeAnnotation r"
proof -
  from assms have np: "\<not> IsPublishable (excluded r) (a\<lparr>Mask := m\<rparr>)" for m
    by (simp add: IsPublishable_def)
  then have st: "step r (AddressEvent (a\<lparr>Mask := m\<rparr>) isAdd apiOk) = r" for m isAdd apiOk
    by (simp add: handleAddressEvent_excluded_address)
  from st [of "Mask a"] have st': "step r (AddressEvent a isAdd apiOk) = r" for isAdd apiOk
    by simp
  from np st st' show ?thesis by simp
qed

theorem excluded_address_event_ignored_witness:
  "Equal (IP (cidr4 10 1 1 2 24)) (mgmtPortIPv4 (excluded exampleReconciler)) \<and>
   nodeAnnotation (run exampleReconciler
       [AddressEvent (cidr4 10 1 1 2 24) True True, AddressEvent (cidr4 10 1 1 2 24) False True])
     = {cidr4 10 1 1 10 24}"
proof -
  have "nodeAnnotation (run exampleReconciler
       [AddressEvent (cidr4 10 1 1 2 24) True True, AddressEvent (cidr4 10 1 1 2 24) False True])
     = nodeAnnotation exampleReconciler"
    using excluded_address_event_ignored
            [of "cidr4 10 1 1 2 24" exampleReconciler "Mask (cidr4 10 1 1 2 24)" True True True True]
      eval_excluded_mgmt
    by blast
  moreover have "nodeAnnotation exampleReconciler = {cidr4 10 1 1 10 24}"
    by (simp add: exampleReconciler_def)
  ultimately show ?thesis
    using eval_excluded_mgmt by simp
qed

text \<open>
  C9. When the event channel closes in the state \<open>Subscribed\<close> the reconciler goes to
  \<open>Resubscribing\<close>; without a stop signal no sequence of inputs brings it to \<open>Stopped\<close>.
  However many attempts fail, the first attempt that succeeds brings it back to
  \<open>Subscribed\<close>. Then an add event for a publishable address, once written, leaves
  the address in the node annotation, and a remove event that follows leaves the
  annotation without it.
\<close>

theorem resubscribe_and_continue:
  assumes "phase r = Subscribed"
    and "\<forall>i \<in> set fails. \<exists>cur ok. i = SubscribeAttempt False cur ok"
    and "r' = run r (ChannelClosed # fails @ [SubscribeAttempt True current apiOk])"
  shows "phase (step r ChannelClosed) = Resubscribing \<and>
         (StopSignal \<notin> set inputs \<longrightarrow> phase (run r inputs) \<noteq> Stopped) \<and>
         phase r' = Subscribed \<and>
         (IsPublishable (excluded r) a \<longrightarrow>
            a \<in> nodeAnnotation (step r' (AddressEvent a True True)) \<and>
            a \<notin> nodeAnnotation (run r' [AddressEvent a True True, AddressEvent a False True])) \<and>
         (IsPublishable (excluded r) b \<longrightarrow>
            b \<notin> nodeAnnotation (run r' [AddressEvent a True True, AddressEvent b False True]))"
proof -
  have closed: "phase (step r ChannelClosed) = Resubscribing"
    using assms(1) by simp
  have alive: "StopSignal \<notin> set inputs \<longrightarrow> phase (run r inputs) \<noteq> Stopped"
  proof
    assume "StopSignal \<notin> set inputs"
    moreover have "phase r \<noteq> Stopped" using assms(1) by simp
    ultimately show "phase (run r inputs) \<noteq> Stopped" by (intro run_not_Stopped)
  qed
  have "phase (run (step r ChannelClosed) fails) = Resubscribing"
    using closed assms(2) by (rule failed_attempts_Resubscribing)
  then have sub: "phase r' = Subscribed"
    by (simp add: assms(3) run_append)
  have ex: "excluded r' = excluded r"
    by (simp add: assms(3) run_excluded)
  define r1 where "r1 = handleAddressEvent r' a True True"
  have s1: "step r' (AddressEvent a True True) = r1"
    using sub by (simp add: r1_def)
  have sub1: "phase r1 = Subscribed" and ex1: "excluded r1 = excluded r"
    using sub ex by (simp_all add: r1_def handleAddressEvent_phase handleAddressEvent_excluded)
  have s2: "run r' [AddressEvent a True True, AddressEvent c False True]
              = handleAddressEvent r1 c False True" for c
    using s1 sub1 by simp
  have add: "IsPublishable (excluded r) a \<longrightarrow> a \<in> nodeAnnotation (step r' (AddressEvent a True True))"
    unfolding s1 using ex by (simp add: r1_def handleAddressEvent_add)
  have rem: "IsPublishable (excluded r) c \<longrightarrow>
      c \<notin> nodeAnnotation (run r' [AddressEvent a True True, AddressEvent c False True])" for c
    unfolding s2 using ex1 by (simp add: handleAddressEvent_remove)
  from closed alive sub add rem [of a] rem [of b] show ?thesis
    by blast
qed

theorem resubscribe_and_continue_witness:
  "phase exampleReconciler = Subscribed \<and>
   IsPublishable (excluded exampleReconciler) (cidr4 10 1 1 10 24) \<and>
   phase (run exampleReconciler
            [ChannelClosed, SubscribeAttempt False [] True, SubscribeAttempt True [] True]) = Subscribed \<and>
   cidr4 10 1 1 10 24 \<in> nodeAnnotation (step (run exampleReconciler
            [ChannelClosed, SubscribeAttempt False [] True, SubscribeAttempt True [] True])
            (AddressEvent (cidr4 10 1 1 10 24) True True)) \<and>
   cidr4 10 1 1 10 24 \<notin> nodeAnnotation (run (run exampleReconciler
            [ChannelClosed, SubscribeAttempt False [] True, SubscribeAttempt True [] True])
            [AddressEvent (cidr4 10 1 1 10 24) True True, AddressEvent (cidr4 10 1 1 10 24) False True])"
proof -
  have p: "phase exampleReconciler = Subscribed"
    by (simp add: exampleReconciler_def)
  have f: "\<forall>i \<in> set [SubscribeAttempt False [] True]. \<exists>cur ok. i = SubscribeAttempt False cur ok"
    by auto
  have e: "run exampleReconciler [ChannelClosed, SubscribeAttempt False [] True, SubscribeAttempt True [] True]
         = run exampleReconciler (ChannelClosed # [SubscribeAttempt False [] True] @ [SubscribeAttempt True [] True])"
    by simp
  note inst = resubscribe_and_continue
      [where r = exampleReconciler and fails = "[SubscribeAttempt False [] True]"
         and current = "[]" and apiOk = True and inputs = "[]"
         and a = "cidr4 10 1 1 10 24" and b = "cidr4 10 1 1 10 24", OF p f e]
  have "phase (run exampleReconciler
            [ChannelClosed, SubscribeAttempt False [] True, SubscribeAttempt True [] True]) = Subscribed"
    using inst unfolding e by blast
  moreover have "cidr4 10 1 1 10 24 \<in> nodeAnnotation (step (run exampleReconciler
            [ChannelClosed, SubscribeAttempt False [] True, SubscribeAttempt True [] True])
            (AddressEvent (cidr4 10 1 1 10 24) True True))"
    using inst eval_publishable unfolding e by blast
  moreover have "cidr4 10 1 1 10 24 \<notin> nodeAnnotation (run (run exampleReconciler
            [ChannelClosed, SubscribeAttempt False [] True, SubscribeAttempt True [] True])
            [AddressEvent (cidr4 10 1 1 10 24) True True, AddressEvent (cidr4 10 1 1 10 24) False True])"
    using inst eval_publishable unfolding e by blast
  ultimately show ?thesis
    using p eval_publishable by blast
qed

subsection \<open>C6: the address family of the next hop\<close>

text \<open>
  C6. For a route of the record whose destination parses (and is not the default
  network) and whose next hop is set and parses: when one of the next hop and the
  destination is IPv6 and the other IPv4, the route is refused with the error of the
  different family, and \<^verbatim>\<open>UnmarshalPodAnnotation\<close> of every annotation with such a route
  returns an error of the kind \<open>InvalidConfig\<close>; when the families are the same, the route
  is accepted with the parsed next hop, and a record whose other fields and routes are
  accepted is decoded with it.
\<close>

theorem unmarshalRoute_next_hop_family:
  assumes "ParseCIDR (dest r) = Some (ip, d)" and "\<not> IsUnspecified (IP d)"
    and "nextHop r \<noteq> []" and "ParseIP (nextHop r) \<noteq> []"
  shows "(IsIPv6 (ParseIP (nextHop r)) \<noteq> IsIPv6CIDR d \<longrightarrow>
            unmarshalRoute r = Inl (NextHopFamily (dest r) (nextHop r)) \<and>
            (annotations OvnPodAnnotationName = Some (JSON podNetworks) \<longrightarrow>
             podNetworks OvnPodDefaultNetwork = Some a \<longrightarrow> r \<in> set (routes a) \<longrightarrow>
               (\<exists>e. UnmarshalPodAnnotation annotations = Inl e \<and> isInvalidConfig e))) \<and>
         (IsIPv6 (ParseIP (nextHop r)) = IsIPv6CIDR d \<longrightarrow>
            unmarshalRoute r = Inr \<lparr>Dest = d, NextHop = Some (ParseIP (nextHop r))\<rparr> \<and>
            (annotations OvnPodAnnotationName = Some (JSON podNetworks) \<longrightarrow>
             podNetworks OvnPodDefaultNetwork = Some a \<longrightarrow>
             unmarshalRecord (a\<lparr>routes := []\<rparr>) = Inr q \<longrightarrow> routes a = [r] \<longrightarrow>
               UnmarshalPodAnnotation annotations =
                 Inr (q\<lparr>Routes := [\<lparr>Dest = d, NextHop = Some (ParseIP (nextHop r))\<rparr>]\<rparr>)))"
proof -
  have differ: "IsIPv6 (ParseIP (nextHop r)) \<noteq> IsIPv6CIDR d \<longrightarrow>
            unmarshalRoute r = Inl (NextHopFamily (dest r) (nextHop r))"
    using assms by (simp add: unmarshalRoute_def Let_def)
  have same: "IsIPv6 (ParseIP (nextHop r)) = IsIPv6CIDR d \<longrightarrow>
            unmarshalRoute r = Inr \<lparr>Dest = d, NextHop = Some (ParseIP (nextHop r))\<rparr>"
    using assms by (simp add: unmarshalRoute_def Let_def)
  have whole_differ: "IsIPv6 (ParseIP (nextHop r)) \<noteq> IsIPv6CIDR d \<longrightarrow>
             annotations OvnPodAnnotationName = Some (JSON podNetworks) \<longrightarrow>
             podNetworks OvnPodDefaultNetwork = Some a \<longrightarrow> r \<in> set (routes a) \<longrightarrow>
               (\<exists>e. UnmarshalPodAnnotation annotations = Inl e \<and> isInvalidConfig e)"
  proof (intro impI)
    assume f: "IsIPv6 (ParseIP (nextHop r)) \<noteq> IsIPv6CIDR d"
      and j: "annotations OvnPodAnnotationName = Some (JSON podNetworks)"
      and n: "podNetworks OvnPodDefaultNetwork = Some a" and m: "r \<in> set (routes a)"
    from f differ have "unmarshalRoute r = Inl (NextHopFamily (dest r) (nextHop r))" by simp
    with m obtain e where e: "unmarshalRecord a = Inl e"
      using unmarshalRecord_routes_fail by blast
    then have "isInvalidConfig e" by (rule unmarshalRecord_Inl)
    with e show "\<exists>e. UnmarshalPodAnnotation annotations = Inl e \<and> isInvalidConfig e"
      using UnmarshalPodAnnotation_JSON [of annotations podNetworks a, OF j n] by simp
  qed
  have whole_same: "IsIPv6 (ParseIP (nextHop r)) = IsIPv6CIDR d \<longrightarrow>
             annotations OvnPodAnnotationName = Some (JSON podNetworks) \<longrightarrow>
             podNetworks OvnPodDefaultNetwork = Some a \<longrightarrow>
             unmarshalRecord (a\<lparr>routes := []\<rparr>) = Inr q \<longrightarrow> routes a = [r] \<longrightarrow>
               UnmarshalPodAnnotation annotations =
                 Inr (q\<lparr>Routes := [\<lparr>Dest = d, NextHop = Some (ParseIP (nextHop r))\<rparr>]\<rparr>)"
  proof (intro impI)
    assume f: "IsIPv6 (ParseIP (nextHop r)) = IsIPv6CIDR d"
      and j: "annotations OvnPodAnnotationName = Some (JSON podNetworks)"
      and n: "podNetworks OvnPodDefaultNetwork = Some a"
      and q: "unmarshalRecord (a\<lparr>routes := []\<rparr>) = Inr q" and rs: "routes a = [r]"
    from f same rs
    have "unmarshalRoutes (routes a) = Inr [\<lparr>Dest = d, NextHop = Some (ParseIP (nextHop r))\<rparr>]"
      by simp
    with q have "unmarshalRecord a = Inr (q\<lparr>Routes := [\<lparr>Dest = d, NextHop = Some (ParseIP (nextHop r))\<rparr>]\<rparr>)"
      by (rule unmarshalRecord_routes)
    then show "UnmarshalPodAnnotation annotations =
                 Inr (q\<lparr>Routes := [\<lparr>Dest = d, NextHop = Some (ParseIP (nextHop r))\<rparr>]\<rparr>)"
      using UnmarshalPodAnnotation_JSON [of annotations podNetworks a, OF j n] by simp
  qed
  from differ same whole_differ whole_same show ?thesis by blast
qed

theorem unmarshalRoute_next_hop_family_witness:
  "unmarshalRoute exampleRouteMixed = Inl (NextHopFamily ''10.1.0.0/16'' ''fd00::1'') \<and>
   unmarshalRoute exampleRouteV4
     = Inr \<lparr>Dest = \<lparr>IP = [10, 1, 0, 0], Mask = [255, 255, 0, 0]\<rparr>, NextHop = Some (IPv4 192 168 0 1)\<rparr>"
proof -
  have d: "\<not> IsUnspecified (IP \<lparr>IP = [10, 1, 0, 0], Mask = [255, 255, 0, 0]\<rparr>)"
    using eval_exampleRouteMixed_facts by simp
  have "unmarshalRoute exampleRouteMixed
          = Inl (NextHopFamily (dest exampleRouteMixed) (nextHop exampleRouteMixed))"
    using unmarshalRoute_next_hop_family
            [where r = exampleRouteMixed, OF eval_exampleRouteMixed_dest d]
      eval_exampleRouteMixed_facts
    by blast
  then have mixed: "unmarshalRoute exampleRouteMixed = Inl (NextHopFamily ''10.1.0.0/16'' ''fd00::1'')"
    by (simp add: exampleRouteMixed_def)
  show ?thesis
    using mixed eval_exampleRouteV4 by simp
qed

end
